theory Spec2Isabelle
  imports Complex_Main
begin

section \<open>Numbers, vectors, boxes and geometries\<close>

text \<open>
  The engine of \<^verbatim>\<open>src/lib/Scene.svelte\<close> computes with JavaScript numbers. They are
  modelled as \<^typ>\<open>real\<close>: rounding, infinities and NaN are outside the model. A
  position array \<^verbatim>\<open>[number, number, number]\<close> is a triple, a three.js \<^verbatim>\<open>Vector3\<close> is
  the datatype below, a \<^verbatim>\<open>Box3\<close> that holds at least one point is a record of its two
  corners.
\<close>

type_synonym pos3 = "real \<times> real \<times> real"

datatype vec3 = Vector3 (vx: real) (vy: real) (vz: real)

record box3 =
  bmin :: vec3
  bmax :: vec3

text \<open>
  A \<^verbatim>\<open>BufferGeometry\<close> is its vertex list. Every geometry of the model has a first
  vertex: for a geometry with no vertex three.js computes the empty box
  \<open>(+\<infinity>, -\<infinity>)\<close>, which has no value in \<^typ>\<open>real\<close>.
\<close>

datatype geometry = Geometry vec3 "vec3 list"

fun vertices :: "geometry \<Rightarrow> vec3 list" where
  "vertices (Geometry v vs) = v # vs"

fun mapGeometry :: "(vec3 \<Rightarrow> vec3) \<Rightarrow> geometry \<Rightarrow> geometry" where
  "mapGeometry f (Geometry v vs) = Geometry (f v) (map f vs)"

definition expandByPoint :: "vec3 \<Rightarrow> box3 \<Rightarrow> box3" where
  "expandByPoint p b =
     \<lparr>bmin = Vector3 (min (vx (bmin b)) (vx p)) (min (vy (bmin b)) (vy p)) (min (vz (bmin b)) (vz p)),
      bmax = Vector3 (max (vx (bmax b)) (vx p)) (max (vy (bmax b)) (vy p)) (max (vz (bmax b)) (vz p))\<rparr>"

text \<open>\<^verbatim>\<open>geometry.computeBoundingBox()\<close> followed by reading \<^verbatim>\<open>geometry.boundingBox\<close>.\<close>

fun computeBoundingBox :: "geometry \<Rightarrow> box3" where
  "computeBoundingBox (Geometry v vs) = fold expandByPoint vs \<lparr>bmin = v, bmax = v\<rparr>"

text \<open>\<^verbatim>\<open>Box3.getCenter\<close> and \<^verbatim>\<open>Box3.getSize\<close>.\<close>

definition getCenter :: "box3 \<Rightarrow> vec3" where
  "getCenter b =
     Vector3 ((vx (bmin b) + vx (bmax b)) * 0.5) ((vy (bmin b) + vy (bmax b)) * 0.5)
       ((vz (bmin b) + vz (bmax b)) * 0.5)"

definition getSize :: "box3 \<Rightarrow> vec3" where
  "getSize b =
     Vector3 (vx (bmax b) - vx (bmin b)) (vy (bmax b) - vy (bmin b)) (vz (bmax b) - vz (bmin b))"

text \<open>\<^verbatim>\<open>geometry.translate(x, y, z)\<close> and \<^verbatim>\<open>geometry.scale(x, y, z)\<close>.\<close>

definition translate :: "real \<Rightarrow> real \<Rightarrow> real \<Rightarrow> geometry \<Rightarrow> geometry" where
  "translate x y z = mapGeometry (\<lambda>p. Vector3 (vx p + x) (vy p + y) (vz p + z))"

definition scale :: "real \<Rightarrow> real \<Rightarrow> real \<Rightarrow> geometry \<Rightarrow> geometry" where
  "scale x y z = mapGeometry (\<lambda>p. Vector3 (vx p * x) (vy p * y) (vz p * z))"

text \<open>
  Reading a JavaScript array at an index: \<^verbatim>\<open>xs[i]\<close> is \<^verbatim>\<open>undefined\<close> (here \<open>None\<close>)
  outside the array.
\<close>

definition elemAt :: "'a list \<Rightarrow> nat \<Rightarrow> 'a option" where
  "elemAt xs i = (if i < length xs then Some (xs ! i) else None)"

text \<open>
  The same read at an index that is any JavaScript number: only a whole number from 0 up
  to the length names an element; at a fractional or negative index the read is
  \<^verbatim>\<open>undefined\<close>.
\<close>

definition elemAtNumber :: "'a list \<Rightarrow> real \<Rightarrow> 'a option" where
  "elemAtNumber xs r =
     (if 0 \<le> r \<and> r = of_int \<lfloor>r\<rfloor> \<and> nat \<lfloor>r\<rfloor> < length xs then Some (xs ! nat \<lfloor>r\<rfloor>) else None)"

section \<open>Key count and default positions\<close>

text \<open>\<^verbatim>\<open>KEYCAP_POSITIONS\<close> of \<^verbatim>\<open>keycapPositions.ts\<close>.\<close>

definition KEYCAP_POSITIONS :: "pos3 list list" where
  "KEYCAP_POSITIONS =
    [[(4.5, 0, 0)],
     [(-6.5, 0, 0), (15.5, 0, 0)],
     [(-17.7, 0, 0), (4.5, 0, 0), (26.7, 0, 0)],
     [(-28.8, 0, 0), (-6.6, 0, 0), (15.6, 0, 0), (37.8, 0, 0)],
     [(-39.9, 0, 0), (-17.7, 0, 0), (4.5, 0, 0), (26.7, 0, 0), (48.8, 0, 0)],
     [(-51, 0, 0), (-28.8, 0, -0), (-6.7, 0, 0), (15.5, 0, 0), (37.7, 0, 0), (60, 0, 0)],
     [(-62, 0, 0), (-40, 0, 0), (-17.8, 0, 0), (4.5, 0, 0), (26.7, 0, 0), (49, 0, 0), (71, 0, 0)]]"

text \<open>
  The seven body meshes, by asset name. \<^verbatim>\<open>numberOfKeys\<close> is a JavaScript number: any real
  value, whole or fractional (NaN is outside the model). \<^verbatim>\<open>keyIndex\<close> clamps it between 1
  and 7 and subtracts 1, without rounding, so the index is a number too.
\<close>

definition CLICKER_URLS :: "string list" where
  "CLICKER_URLS =
    [''clicker_1.stl'', ''clicker_2.stl'', ''clicker_3.stl'', ''clicker_4.stl'',
     ''clicker_5.stl'', ''clicker_6.stl'', ''clicker_7.stl'']"

definition keyIndex :: "real \<Rightarrow> real" where
  "keyIndex numberOfKeys = min 7 (max 1 numberOfKeys) - 1"

text \<open>
  \<^verbatim>\<open>geometryStores\<close> and \<^verbatim>\<open>currentGeometryStore\<close>: \<open>load\<close> is the STL loader, giving for a
  URL the store's content (\<open>None\<close> while the mesh has not arrived). The outer option of
  \<open>currentGeometryStore\<close> is \<open>None\<close> where the array read is \<^verbatim>\<open>undefined\<close>.
\<close>

definition geometryStores :: "(string \<Rightarrow> geometry option) \<Rightarrow> geometry option list" where
  "geometryStores load = map load CLICKER_URLS"

definition currentGeometryStore ::
  "(string \<Rightarrow> geometry option) \<Rightarrow> real \<Rightarrow> geometry option option" where
  "currentGeometryStore load numberOfKeys =
     elemAtNumber (geometryStores load) (keyIndex numberOfKeys)"

text \<open>
  \<^verbatim>\<open>$stlGeometry\<close>: the content of the current store; an \<^verbatim>\<open>undefined\<close> store reads as
  \<^verbatim>\<open>undefined\<close>.
\<close>

definition stlGeometry :: "(string \<Rightarrow> geometry option) \<Rightarrow> real \<Rightarrow> geometry option" where
  "stlGeometry load numberOfKeys =
     (case currentGeometryStore load numberOfKeys of None \<Rightarrow> None | Some s \<Rightarrow> s)"

text \<open>
  \<^verbatim>\<open>keycapPositions\<close>: the caller's list when it has a non-zero length, the default
  table's row otherwise (\<^verbatim>\<open>?? []\<close> when the row is missing).
\<close>

definition keycapPositions :: "pos3 list option \<Rightarrow> real \<Rightarrow> pos3 list" where
  "keycapPositions keycapPositionsProp numberOfKeys =
     (case keycapPositionsProp of
        Some ps \<Rightarrow>
          if length ps \<noteq> 0 then ps
          else (case elemAtNumber KEYCAP_POSITIONS (keyIndex numberOfKeys) of
                  Some d \<Rightarrow> d | None \<Rightarrow> [])
      | None \<Rightarrow> (case elemAtNumber KEYCAP_POSITIONS (keyIndex numberOfKeys) of
                  Some d \<Rightarrow> d | None \<Rightarrow> []))"

text \<open>\<^verbatim>\<open>getDefaultPositions\<close> of the application shell (\<^verbatim>\<open>App.svelte\<close>).\<close>

definition getDefaultPositions :: "real \<Rightarrow> pos3 list" where
  "getDefaultPositions n =
     (case elemAtNumber KEYCAP_POSITIONS (min 7 (max 1 n) - 1) of Some d \<Rightarrow> d | None \<Rightarrow> [])"

section \<open>Layout\<close>

text \<open>\<^verbatim>\<open>meshPosition\<close> and \<^verbatim>\<open>clickerTopY\<close> of the body.\<close>

definition meshPosition :: "geometry option \<Rightarrow> pos3" where
  "meshPosition geom =
     (case geom of
        None \<Rightarrow> (0, 0, 0)
      | Some g \<Rightarrow>
          let box = computeBoundingBox g; center = getCenter box
          in (- vx center, - vz (bmin box), vy center))"

definition clickerTopY :: "geometry option \<Rightarrow> real" where
  "clickerTopY geom =
     (case geom of
        None \<Rightarrow> 0
      | Some g \<Rightarrow> fst (snd (meshPosition geom)) + vz (bmax (computeBoundingBox g)))"

record keycap_offset =
  center :: pos3
  minZ :: real
  maxZ :: real

definition keycapOffset :: "geometry option \<Rightarrow> keycap_offset" where
  "keycapOffset geom =
     (case geom of
        None \<Rightarrow> \<lparr>center = (0, 0, 0), minZ = 0, maxZ = 0\<rparr>
      | Some g \<Rightarrow>
          let box = computeBoundingBox g; c = getCenter box
          in \<lparr>center = (vx c, vy c, vz c), minZ = vz (bmin box), maxZ = vz (bmax box)\<rparr>)"

text \<open>
  \<^verbatim>\<open>keycapMeshPositions\<close>: \<open>offset\<close> is \<^verbatim>\<open>keycapOffset\<close>, \<open>topY\<close> is \<^verbatim>\<open>clickerTopY\<close>,
  \<open>positions\<close> is \<^verbatim>\<open>keycapPositions\<close>.
\<close>

definition keycapMeshPositions :: "keycap_offset \<Rightarrow> real \<Rightarrow> pos3 list \<Rightarrow> pos3 list" where
  "keycapMeshPositions offset topY positions =
     map (\<lambda>(x, y, z). (x - fst (center offset), topY + y - minZ offset,
                        z + fst (snd (center offset)))) positions"

record border_offset =
  bcenter :: pos3
  bminZ :: real

definition borderOffset :: "geometry option \<Rightarrow> border_offset" where
  "borderOffset geom =
     (case geom of
        None \<Rightarrow> \<lparr>bcenter = (0, 0, 0), bminZ = 0\<rparr>
      | Some g \<Rightarrow>
          let box = computeBoundingBox g; c = getCenter box
          in \<lparr>bcenter = (vx c, vy c, vz c), bminZ = vz (bmin box)\<rparr>)"

definition keycapHeight :: "keycap_offset \<Rightarrow> real" where
  "keycapHeight offset = maxZ offset - minZ offset"

definition borderMeshPositions ::
  "keycap_offset \<Rightarrow> border_offset \<Rightarrow> real \<Rightarrow> pos3 list \<Rightarrow> pos3 list" where
  "borderMeshPositions offset border topY positions =
     (if length positions = 0 then []
      else map (\<lambda>(x, y, z).
             let keycapBottomY = topY + y - minZ offset;
                 keycapTopY = keycapBottomY + keycapHeight offset;
                 borderPosY = keycapTopY - bminZ border
             in (x - fst (bcenter border), borderPosY, z + fst (snd (bcenter border)))) positions)"

text \<open>
  The whole placement of the keycaps for a set of design parameters: the body mesh chosen
  by the key count, the keycap mesh, the caller's positions.
\<close>

definition keycapPlacements ::
  "(string \<Rightarrow> geometry option) \<Rightarrow> geometry option \<Rightarrow> pos3 list option \<Rightarrow> real \<Rightarrow> pos3 list" where
  "keycapPlacements load keycapGeom keycapPositionsProp numberOfKeys =
     keycapMeshPositions (keycapOffset keycapGeom) (clickerTopY (stlGeometry load numberOfKeys))
       (keycapPositions keycapPositionsProp numberOfKeys)"

section \<open>Meshes placed in the scene\<close>

text \<open>
  An \<^verbatim>\<open>Object3D\<close> holding a mesh directly under the scene: its world matrix is
  translation after rotation after scale. Of the Euler angles the live scene sets only
  \<^verbatim>\<open>rotation.x\<close>.
\<close>

record mesh =
  mgeometry :: geometry
  mposition :: pos3
  mscale :: pos3
  mrotation_x :: real

definition rotateX :: "real \<Rightarrow> vec3 \<Rightarrow> vec3" where
  "rotateX a p =
     Vector3 (vx p) (vy p * cos a - vz p * sin a) (vy p * sin a + vz p * cos a)"

definition localToWorld :: "mesh \<Rightarrow> vec3 \<Rightarrow> vec3" where
  "localToWorld m p =
     (case mposition m of (px, py, pz) \<Rightarrow>
      case mscale m of (sx, sy, sz) \<Rightarrow>
        let q = rotateX (mrotation_x m) (Vector3 (vx p * sx) (vy p * sy) (vz p * sz))
        in Vector3 (vx q + px) (vy q + py) (vz q + pz))"

definition worldGeometry :: "mesh \<Rightarrow> geometry" where
  "worldGeometry m = mapGeometry (localToWorld m) (mgeometry m)"

text \<open>The lowest and the highest world Y that a placed mesh reaches.\<close>

definition lowestY :: "mesh \<Rightarrow> real" where
  "lowestY m = vy (bmin (computeBoundingBox (worldGeometry m)))"

definition highestY :: "mesh \<Rightarrow> real" where
  "highestY m = vy (bmax (computeBoundingBox (worldGeometry m)))"

definition FILE_TO_MM :: real where
  "FILE_TO_MM = 1"

definition LEGEND_DEPTH_MM :: real where
  "LEGEND_DEPTH_MM = 1.2"

definition SVG_EXTRUDE_DEPTH :: real where
  "SVG_EXTRUDE_DEPTH = 2"

text \<open>The \<^verbatim>\<open>T.Mesh\<close> elements of the template for the body, a keycap and a border.\<close>

definition bodyMesh :: "geometry \<Rightarrow> mesh" where
  "bodyMesh g =
     \<lparr>mgeometry = g, mposition = meshPosition (Some g),
      mscale = (FILE_TO_MM, FILE_TO_MM, FILE_TO_MM), mrotation_x = - pi / 2\<rparr>"

definition keycapMesh :: "geometry \<Rightarrow> pos3 \<Rightarrow> mesh" where
  "keycapMesh g pos =
     \<lparr>mgeometry = g, mposition = pos,
      mscale = (FILE_TO_MM, FILE_TO_MM, FILE_TO_MM), mrotation_x = - pi / 2\<rparr>"

definition borderMesh :: "geometry \<Rightarrow> pos3 \<Rightarrow> mesh" where
  "borderMesh g pos =
     \<lparr>mgeometry = g, mposition = pos,
      mscale = (FILE_TO_MM, FILE_TO_MM, FILE_TO_MM), mrotation_x = - pi / 2\<rparr>"

section \<open>Strings\<close>

text \<open>
  \<^verbatim>\<open>String.prototype.trim\<close>, \<^verbatim>\<open>toUpperCase\<close> and the decimal text of a number, on ASCII
  text. A string is truthy when it is not empty.
\<close>

definition isSpace :: "char \<Rightarrow> bool" where
  "isSpace c = (c = CHR '' '' \<or> c = CHR 0x09 \<or> c = CHR 0x0A \<or> c = CHR 0x0B \<or> c = CHR 0x0C
                 \<or> c = CHR 0x0D)"

definition trim :: "string \<Rightarrow> string" where
  "trim s = rev (dropWhile isSpace (rev (dropWhile isSpace s)))"

definition upperChar :: "char \<Rightarrow> char" where
  "upperChar c =
     (case map_of (zip ''abcdefghijklmnopqrstuvwxyz'' ''ABCDEFGHIJKLMNOPQRSTUVWXYZ'') c of
        Some u \<Rightarrow> u
      | None \<Rightarrow> c)"

definition toUpperCase :: "string \<Rightarrow> string" where
  "toUpperCase s = map upperChar s"

definition digit :: "nat \<Rightarrow> char" where
  "digit d = ''0123456789'' ! d"

fun showNat :: "nat \<Rightarrow> string" where
  "showNat n = (if n < 10 then [digit n] else showNat (n div 10) @ [digit (n mod 10)])"

declare showNat.simps [simp del]

definition truthy :: "string option \<Rightarrow> bool" where
  "truthy s = (case s of None \<Rightarrow> False | Some t \<Rightarrow> t \<noteq> [])"

section \<open>Text legends of the live scene\<close>

text \<open>
  A loaded font gives \<^verbatim>\<open>new TextGeometry(text, {font, size: 1, depth, ...})\<close> for a text
  and a depth.
\<close>

type_synonym font = "string \<Rightarrow> real \<Rightarrow> geometry"

text \<open>The recentring that follows every \<^verbatim>\<open>TextGeometry\<close> and the merged icon geometry.\<close>

definition centered :: "geometry \<Rightarrow> geometry" where
  "centered g =
     (let c = getCenter (computeBoundingBox g) in translate (- vx c) (- vy c) (- vz c) g)"

record label =
  lgeometry :: geometry
  lposition :: pos3

text \<open>
  The position both legends (and the export) compute for a key from its entry of
  \<^verbatim>\<open>keycapPositions\<close>; the source names the two heights \<^verbatim>\<open>keycapBottomY\<close> and
  \<^verbatim>\<open>keycapTopY\<close>.
\<close>

definition legendPosition :: "keycap_offset \<Rightarrow> real \<Rightarrow> pos3 \<Rightarrow> pos3" where
  "legendPosition offset topY p =
     (case p of (x, y, z) \<Rightarrow>
        let keycapBottomY = topY + y - minZ offset;
            keycapTopY = keycapBottomY + (maxZ offset - minZ offset)
        in (x, keycapTopY, z))"

text \<open>
  The body of the \<^verbatim>\<open>letters.map\<close> callback of \<^verbatim>\<open>keycapLabels\<close> at index \<open>i\<close>: \<open>None\<close>
  where the callback returns \<^verbatim>\<open>null\<close>.
\<close>

definition keycapLabelAt ::
  "font \<Rightarrow> real \<Rightarrow> string list \<Rightarrow> string option list \<Rightarrow> pos3 list \<Rightarrow> keycap_offset \<Rightarrow> real
     \<Rightarrow> nat \<Rightarrow> label option" where
  "keycapLabelAt f textSize letters urls positions offset topY i =
     (if truthy (case elemAt urls i of None \<Rightarrow> None | Some u \<Rightarrow> u) then None
      else case elemAt positions i of
        None \<Rightarrow> None
      | Some mapped \<Rightarrow>
          if \<not> truthy (map_option trim (elemAt letters i)) then None
          else Some \<lparr>lgeometry =
                       centered (f (take 1 (toUpperCase (letters ! i))) (LEGEND_DEPTH_MM / textSize)),
                     lposition = legendPosition offset topY mapped\<rparr>)"

definition keycapLabels ::
  "font option \<Rightarrow> real \<Rightarrow> string list \<Rightarrow> string option list \<Rightarrow> pos3 list \<Rightarrow> keycap_offset \<Rightarrow> real
     \<Rightarrow> label list" where
  "keycapLabels fnt textSize letters urls positions offset topY =
     (case fnt of
        None \<Rightarrow> []
      | Some f \<Rightarrow>
          if length letters = 0 \<or> length positions = 0 then []
          else List.map_filter (keycapLabelAt f textSize letters urls positions offset topY)
                 [0 ..< length letters])"

text \<open>The \<^verbatim>\<open>T.Mesh\<close> of a label: scale \<^verbatim>\<open>[s, -s, s]\<close>, \<^verbatim>\<open>rotation.x = Math.PI / 2\<close>.\<close>

definition labelMesh :: "real \<Rightarrow> label \<Rightarrow> mesh" where
  "labelMesh textSize l =
     \<lparr>mgeometry = lgeometry l, mposition = lposition l,
      mscale = (textSize * FILE_TO_MM, - textSize * FILE_TO_MM, textSize * FILE_TO_MM),
      mrotation_x = pi / 2\<rparr>"

text \<open>
  \<^verbatim>\<open>keycapSvgSlots\<close> at index \<open>i\<close> of \<^verbatim>\<open>positions.map\<close>, and the mesh the template shows
  for a slot once the icon's geometry is in the cache.
\<close>

definition keycapSvgSlotAt ::
  "string option list \<Rightarrow> pos3 list \<Rightarrow> keycap_offset \<Rightarrow> real \<Rightarrow> nat \<Rightarrow> (pos3 \<times> string) option" where
  "keycapSvgSlotAt urls positions offset topY i =
     (case elemAt positions i of
        None \<Rightarrow> None
      | Some mapped \<Rightarrow>
          (case elemAt urls i of
             Some (Some url) \<Rightarrow>
               if trim url = [] then None else Some (legendPosition offset topY mapped, url)
           | _ \<Rightarrow> None))"

definition keycapSvgSlots ::
  "string option list \<Rightarrow> pos3 list \<Rightarrow> keycap_offset \<Rightarrow> real \<Rightarrow> (pos3 \<times> string) list" where
  "keycapSvgSlots urls positions offset topY =
     (if length urls = 0 \<or> length positions = 0 then []
      else List.map_filter (keycapSvgSlotAt urls positions offset topY) [0 ..< length positions])"

definition svgSlotMesh :: "(string \<rightharpoonup> geometry) \<Rightarrow> real \<Rightarrow> pos3 \<times> string \<Rightarrow> mesh option" where
  "svgSlotMesh svgGeometryByUrl svgSize slot =
     (case svgGeometryByUrl (snd slot) of
        None \<Rightarrow> None
      | Some g \<Rightarrow>
          Some \<lparr>mgeometry = g, mposition = fst slot,
                mscale = (svgSize * FILE_TO_MM, svgSize * FILE_TO_MM, LEGEND_DEPTH_MM * FILE_TO_MM),
                mrotation_x = pi / 2\<rparr>)"

section \<open>Icon legends\<close>

text \<open>
  A \<^verbatim>\<open>Shape\<close> made by \<^verbatim>\<open>SVGLoader.createShapes\<close>, as the points of its outline (a first
  point and the others). \<^verbatim>\<open>ExtrudeGeometry\<close> without bevel puts every vertex on the
  outline at depth \<open>0\<close> or at the extrusion depth; \<^verbatim>\<open>mergeGeometries\<close> concatenates the
  vertices.
\<close>

datatype shape = Shape "real \<times> real" "(real \<times> real) list"

fun ExtrudeGeometry :: "shape \<Rightarrow> real \<Rightarrow> geometry" where
  "ExtrudeGeometry (Shape p ps) depth =
     Geometry (Vector3 (fst p) (snd p) 0)
       (map (\<lambda>q. Vector3 (fst q) (snd q) 0) ps @ map (\<lambda>q. Vector3 (fst q) (snd q) depth) (p # ps))"

fun mergeGeometries :: "geometry list \<Rightarrow> geometry option" where
  "mergeGeometries [] = None"
| "mergeGeometries (Geometry v vs # gs) = Some (Geometry v (vs @ concat (map vertices gs)))"

text \<open>
  The normalisation inside the \<^verbatim>\<open>fetch\<close> callback: recentre, scale by one over the largest
  of the three sizes and \<open>0.001\<close>, then scale the depth by one over itself when it exceeds
  \<open>0.001\<close>.
\<close>

definition normalizeSvg :: "geometry \<Rightarrow> geometry" where
  "normalizeSvg merged =
     (let box = computeBoundingBox merged;
          center = getCenter box;
          merged1 = translate (- vx center) (- vy center) (- vz center) merged;
          size = getSize (computeBoundingBox merged1);
          maxDim = max (max (max (vx size) (vy size)) (vz size)) 0.001;
          scale1 = 1 / maxDim;
          merged2 = scale scale1 scale1 scale1 merged1;
          box2 = computeBoundingBox merged2;
          zSize = vz (bmax box2) - vz (bmin box2)
      in if zSize > 0.001 then scale 1 1 (1 / zSize) merged2 else merged2)"

text \<open>
  The geometry the callback builds from the shapes of a parsed icon before it normalises
  it, and what it stores in \<^verbatim>\<open>svgGeometryByUrl\<close>: \<open>None\<close> where it returns without
  storing.
\<close>

definition mergedGeometry :: "shape list \<Rightarrow> geometry option" where
  "mergedGeometry shapes =
     (let geometries = map (\<lambda>sh. ExtrudeGeometry sh SVG_EXTRUDE_DEPTH) shapes
      in if length geometries = 0 then None
         else if length geometries = 1 then Some (geometries ! 0)
         else mergeGeometries geometries)"

definition svgGeometry :: "shape list \<Rightarrow> geometry option" where
  "svgGeometry shapes =
     (case mergedGeometry shapes of
        None \<Rightarrow> None
      | Some merged \<Rightarrow> Some (normalizeSvg merged))"

text \<open>The two in-plane sizes and the depth of a legend geometry's bounding box.\<close>

definition inPlaneMax :: "geometry \<Rightarrow> real" where
  "inPlaneMax g = (let size = getSize (computeBoundingBox g) in max (vx size) (vy size))"

definition depthOf :: "geometry \<Rightarrow> real" where
  "depthOf g = vz (getSize (computeBoundingBox g))"

section \<open>Export of keycaps\<close>

text \<open>
  The properties of the component and the stores it reads. \<open>clickerLoad\<close> is the STL
  loader on the body URLs; \<open>svgGeometryByUrl\<close> is the icon cache.
\<close>

record props =
  showBorder :: bool
  numberOfKeys :: real
  keycapPositionsProp :: "pos3 list option"
  keycapLetters :: "string list"
  keycapSvgUrls :: "string option list"
  keycapSvgSizeMm :: real
  textSizeMm :: real

record stores =
  clickerLoad :: "string \<Rightarrow> geometry option"
  keycapGeometryStore :: "geometry option"
  borderGeometryStore :: "geometry option"
  fontStore :: "font option"
  svgGeometryByUrl :: "string \<rightharpoonup> geometry"

text \<open>
  The meshes added to the transient group of one exported file, each with the geometry it
  clones and its position, and the file handed to the download.
\<close>

datatype part =
  KeycapPart geometry pos3
| BorderPart geometry pos3
| SvgPart geometry pos3
| TextPart geometry pos3

record stl_file =
  fname :: string
  fparts :: "part list"

definition propTopY :: "props \<Rightarrow> stores \<Rightarrow> real" where
  "propTopY P S = clickerTopY (stlGeometry (clickerLoad S) (numberOfKeys P))"

definition propPositions :: "props \<Rightarrow> pos3 list" where
  "propPositions P = keycapPositions (keycapPositionsProp P) (numberOfKeys P)"

text \<open>
  One round of the loop of \<^verbatim>\<open>exportKeycapStl\<close> for the index \<open>i\<close>, with the keycap geometry
  \<open>keycapGeom\<close> already read from its store: \<open>None\<close> where the loop continues without a
  file. The index is a 0-based key index, a natural number.
\<close>

definition exportKeycapAt :: "props \<Rightarrow> stores \<Rightarrow> geometry \<Rightarrow> nat \<Rightarrow> stl_file option" where
  "exportKeycapAt P S keycapGeom i =
     (let offset = keycapOffset (keycapGeometryStore S);
          topY = propTopY P S;
          positions = keycapMeshPositions offset topY (propPositions P);
          borderPositions =
            borderMeshPositions offset (borderOffset (borderGeometryStore S)) topY (propPositions P)
      in if i \<ge> length positions then None
         else
           let keycapPart = [KeycapPart keycapGeom (positions ! i)];
               borderPart =
                 (case borderGeometryStore S of
                    Some borderGeom \<Rightarrow>
                      if showBorder P \<and> i < length borderPositions
                      then [BorderPart borderGeom (borderPositions ! i)] else []
                  | None \<Rightarrow> []);
               letter = map_option trim (elemAt (keycapLetters P) i);
               svgUrl = (case elemAt (keycapSvgUrls P) i of
                           None \<Rightarrow> None | Some u \<Rightarrow> map_option trim u);
               cached = (case svgUrl of None \<Rightarrow> None | Some u \<Rightarrow> svgGeometryByUrl S u);
               legendPosition = legendPosition offset topY (propPositions P ! i);
               textPart =
                 (case letter of
                    None \<Rightarrow> []
                  | Some l \<Rightarrow>
                      (case fontStore S of
                         None \<Rightarrow> []
                       | Some f \<Rightarrow>
                           if l = [] then []
                           else [TextPart
                                   (centered (f (take 1 (toUpperCase l))
                                      (LEGEND_DEPTH_MM / textSizeMm P)))
                                   legendPosition]));
               legendPart =
                 (if truthy svgUrl
                  then (case cached of Some g \<Rightarrow> [SvgPart g legendPosition] | None \<Rightarrow> textPart)
                  else textPart);
               name =
                 (case letter of
                    None \<Rightarrow> ''keycap-'' @ showNat (i + 1) @ ''.stl''
                  | Some l \<Rightarrow>
                      if l \<noteq> [] \<and> \<not> truthy svgUrl
                      then ''keycap-'' @ showNat (i + 1) @ ''-'' @ toUpperCase l @ ''.stl''
                      else ''keycap-'' @ showNat (i + 1) @ ''.stl'')
           in Some \<lparr>fname = name, fparts = keycapPart @ borderPart @ legendPart\<rparr>)"

text \<open>
  \<^verbatim>\<open>exportKeycapStl(keycapIndex?)\<close>: the files downloaded, in order, and whether
  \<^verbatim>\<open>onKeycapStlDownloaded\<close> was called.
\<close>

definition exportKeycapStl :: "props \<Rightarrow> stores \<Rightarrow> nat option \<Rightarrow> stl_file list \<times> bool" where
  "exportKeycapStl P S keycapIndex =
     (case keycapGeometryStore S of
        None \<Rightarrow> ([], False)
      | Some keycapGeom \<Rightarrow>
          let positions =
                keycapMeshPositions (keycapOffset (keycapGeometryStore S)) (propTopY P S)
                  (propPositions P);
              indices = (case keycapIndex of Some k \<Rightarrow> [k] | None \<Rightarrow> [0 ..< length positions])
          in (List.map_filter (exportKeycapAt P S keycapGeom) indices, True))"

text \<open>What the live scene shows as the legend of key \<open>i\<close>: a letter, an icon mesh.\<close>

definition displayedLabel :: "props \<Rightarrow> stores \<Rightarrow> nat \<Rightarrow> label option" where
  "displayedLabel P S i =
     (case fontStore S of
        None \<Rightarrow> None
      | Some f \<Rightarrow>
          if length (keycapLetters P) = 0 \<or> length (propPositions P) = 0
             \<or> i \<ge> length (keycapLetters P) then None
          else keycapLabelAt f (textSizeMm P) (keycapLetters P) (keycapSvgUrls P) (propPositions P)
                 (keycapOffset (keycapGeometryStore S)) (propTopY P S) i)"

definition displayedIcon :: "props \<Rightarrow> stores \<Rightarrow> nat \<Rightarrow> mesh option" where
  "displayedIcon P S i =
     (if length (keycapSvgUrls P) = 0 \<or> length (propPositions P) = 0 then None
      else case keycapSvgSlotAt (keycapSvgUrls P) (propPositions P)
                  (keycapOffset (keycapGeometryStore S)) (propTopY P S) i of
             None \<Rightarrow> None
           | Some slot \<Rightarrow> svgSlotMesh (svgGeometryByUrl S) (keycapSvgSizeMm P) slot)"

section \<open>Snapshots\<close>

definition SNAPSHOT_SIZE :: nat where
  "SNAPSHOT_SIZE = 1536"

definition FOV_DEG :: real where
  "FOV_DEG = 45"

definition MAX_MESH_SIZE :: real where
  "MAX_MESH_SIZE = 150"

datatype color = Color string

definition SNAPSHOT_BG :: color where
  "SNAPSHOT_BG = Color ''#d4d4d4''"

text \<open>
  The part of a \<^verbatim>\<open>WebGLRenderer\<close> that \<^verbatim>\<open>captureView\<close> reads and writes. The render target
  \<open>None\<close> is the canvas (\<^verbatim>\<open>null\<close>). As in three.js, \<^verbatim>\<open>setClearColor(color)\<close> with no
  second argument also sets the clear alpha to \<open>1\<close>.
\<close>

datatype render_target = WebGLRenderTarget nat nat

record renderer =
  clearColor :: color
  clearAlpha :: real
  renderTarget :: "render_target option"

definition setClearColor :: "color \<Rightarrow> renderer \<Rightarrow> renderer" where
  "setClearColor c r = r\<lparr>clearColor := c, clearAlpha := 1\<rparr>"

definition setClearAlpha :: "real \<Rightarrow> renderer \<Rightarrow> renderer" where
  "setClearAlpha a r = r\<lparr>clearAlpha := a\<rparr>"

definition setRenderTarget :: "render_target option \<Rightarrow> renderer \<Rightarrow> renderer" where
  "setRenderTarget t r = r\<lparr>renderTarget := t\<rparr>"

text \<open>
  A scene: its background, a flat colour or not, and the objects that \<^verbatim>\<open>traverse\<close>
  visits, in order. A mesh carries its geometry and its world matrix, an affine map given
  by its three rows; any other object is \<open>OtherObject\<close>.
\<close>

datatype matrix4 = Matrix4 real real real real  real real real real  real real real real

datatype object3d = MeshObject geometry matrix4 | OtherObject

datatype background = ColorBackground color | OtherBackground

record scene =
  sbackground :: background
  sobjects :: "object3d list"

fun applyMatrix4 :: "matrix4 \<Rightarrow> vec3 \<Rightarrow> vec3" where
  "applyMatrix4 (Matrix4 a11 a12 a13 a14 a21 a22 a23 a24 a31 a32 a33 a34) p =
     Vector3 (a11 * vx p + a12 * vy p + a13 * vz p + a14)
             (a21 * vx p + a22 * vy p + a23 * vz p + a24)
             (a31 * vx p + a32 * vy p + a33 * vz p + a34)"

text \<open>\<^verbatim>\<open>Box3.applyMatrix4\<close>: the box of the eight transformed corners.\<close>

definition boxApplyMatrix4 :: "matrix4 \<Rightarrow> box3 \<Rightarrow> box3" where
  "boxApplyMatrix4 m b =
     (let lo = bmin b; hi = bmax b
      in computeBoundingBox
           (Geometry (applyMatrix4 m (Vector3 (vx lo) (vy lo) (vz lo)))
              [applyMatrix4 m (Vector3 (vx lo) (vy lo) (vz hi)),
               applyMatrix4 m (Vector3 (vx lo) (vy hi) (vz lo)),
               applyMatrix4 m (Vector3 (vx lo) (vy hi) (vz hi)),
               applyMatrix4 m (Vector3 (vx hi) (vy lo) (vz lo)),
               applyMatrix4 m (Vector3 (vx hi) (vy lo) (vz hi)),
               applyMatrix4 m (Vector3 (vx hi) (vy hi) (vz lo)),
               applyMatrix4 m (Vector3 (vx hi) (vy hi) (vz hi))]))"

text \<open>
  A \<^verbatim>\<open>Box3\<close> that may be empty, as the accumulator of \<^verbatim>\<open>getModelBox\<close> is at first:
  \<open>None\<close> is the empty box, whose centre and size three.js gives as zero.
\<close>

definition union :: "box3 option \<Rightarrow> box3 \<Rightarrow> box3 option" where
  "union box b =
     (case box of
        None \<Rightarrow> Some b
      | Some a \<Rightarrow>
          Some \<lparr>bmin = Vector3 (min (vx (bmin a)) (vx (bmin b))) (min (vy (bmin a)) (vy (bmin b)))
                           (min (vz (bmin a)) (vz (bmin b))),
                bmax = Vector3 (max (vx (bmax a)) (vx (bmax b))) (max (vy (bmax a)) (vy (bmax b)))
                           (max (vz (bmax a)) (vz (bmax b)))\<rparr>)"

definition centerOf :: "box3 option \<Rightarrow> vec3" where
  "centerOf box = (case box of None \<Rightarrow> Vector3 0 0 0 | Some b \<Rightarrow> getCenter b)"

definition sizeOf :: "box3 option \<Rightarrow> vec3" where
  "sizeOf box = (case box of None \<Rightarrow> Vector3 0 0 0 | Some b \<Rightarrow> getSize b)"

text \<open>The largest dimension of a mesh's own bounding box, tested against the threshold.\<close>

definition meshDim :: "geometry \<Rightarrow> real" where
  "meshDim g =
     (let geomBox = computeBoundingBox g
      in max (max (vx (bmax geomBox) - vx (bmin geomBox)) (vy (bmax geomBox) - vy (bmin geomBox)))
           (vz (bmax geomBox) - vz (bmin geomBox)))"

text \<open>The callback of \<^verbatim>\<open>scene.traverse\<close> in \<^verbatim>\<open>getModelBox\<close>.\<close>

fun visit :: "object3d \<Rightarrow> box3 option \<Rightarrow> box3 option" where
  "visit (MeshObject g m) box =
     (if meshDim g > MAX_MESH_SIZE then box
      else union box (boxApplyMatrix4 m (computeBoundingBox g)))"
| "visit OtherObject box = box"

record model_box =
  mcenter :: vec3
  msize :: vec3
  mmaxDim :: real

definition getModelBox :: "scene \<Rightarrow> model_box" where
  "getModelBox sc =
     (let box = fold visit (sobjects sc) None;
          center = centerOf box;
          size = sizeOf box;
          m = max (max (vx size) (vy size)) (vz size)
      in \<lparr>mcenter = center, msize = size, mmaxDim = (if m = 0 then 80 else m)\<rparr>)"

definition distanceToFit :: "real \<Rightarrow> real \<Rightarrow> real \<Rightarrow> real" where
  "distanceToFit maxDim fovDeg margin =
     (let halfFovRad = (fovDeg / 2) * (pi / 180)
      in (maxDim / 2 / tan halfFovRad) * margin)"

text \<open>
  The pixels read back from a view are kept as what was rendered: the scene, the camera's
  position and target, the clear colour and alpha, and the target rendered into.
\<close>

record pixels =
  pscene :: scene
  pposition :: pos3
  ptarget :: pos3
  pclearColor :: color
  pclearAlpha :: real
  prenderTarget :: "render_target option"

definition captureView :: "renderer \<Rightarrow> scene \<Rightarrow> pos3 \<Rightarrow> pos3 \<Rightarrow> pixels \<times> renderer" where
  "captureView r sc position target =
     (let rt = WebGLRenderTarget SNAPSHOT_SIZE SNAPSHOT_SIZE;
          prevClearColor = clearColor r;
          prevClearAlpha = clearAlpha r;
          r1 = setClearColor (case sbackground sc of ColorBackground c \<Rightarrow> c
                              | OtherBackground \<Rightarrow> SNAPSHOT_BG) r;
          r2 = setClearAlpha 1 r1;
          r3 = setRenderTarget (Some rt) r2;
          px = \<lparr>pscene = sc, pposition = position, ptarget = target,
                pclearColor = clearColor r3, pclearAlpha = clearAlpha r3,
                prenderTarget = renderTarget r3\<rparr>;
          r4 = setRenderTarget None r3;
          r5 = setClearColor prevClearColor r4;
          r6 = setClearAlpha prevClearAlpha r5
      in (px, r6))"

text \<open>
  The context of \<^verbatim>\<open>useThrelte()\<close>, each part possibly absent, and whether the page can give
  a 2D canvas context. The outputs of a snapshot are the download of the composite image
  (the front view above the top view) and the call of \<^verbatim>\<open>onSnapshotDownloaded\<close>; both
  happen in the \<^verbatim>\<open>onload\<close> callbacks of the two images, which the model takes to fire.
  \<open>now\<close> is \<^verbatim>\<open>Date.now()\<close>.
\<close>

datatype camera = Camera

record threlte =
  trenderer :: "renderer option"
  tscene :: "scene option"
  tcamera :: "camera option"

datatype snapshot_output = Download string pixels pixels | SnapshotDownloaded

definition takeSnapshot :: "bool \<Rightarrow> nat \<Rightarrow> threlte \<Rightarrow> threlte \<times> snapshot_output list" where
  "takeSnapshot canvas2d now t =
     (case trenderer t of
        None \<Rightarrow> (t, [])
      | Some r \<Rightarrow>
     (case tscene t of
        None \<Rightarrow> (t, [])
      | Some sc \<Rightarrow>
     (case tcamera t of
        None \<Rightarrow> (t, [])
      | Some cam \<Rightarrow>
          let mb = getModelBox sc;
              cx = vx (mcenter mb); cy = vy (mcenter mb); cz = vz (mcenter mb);
              dist = distanceToFit (mmaxDim mb) FOV_DEG 1.4;
              (frontPixels, r1) = captureView r sc (cx, cy, cz + dist) (cx, cy, cz);
              (topPixels, r2) = captureView r1 sc (cx, cy + dist, cz) (cx, cy, cz);
              t' = t\<lparr>trenderer := Some r2\<rparr>
          in if \<not> canvas2d then (t', [])
             else (t', [Download (''clicker-snapshot-'' @ showNat now @ ''.png'')
                          frontPixels topPixels,
                        SnapshotDownloaded]))))"

section \<open>The clamped index of a whole key count\<close>

text \<open>For a whole key count, the index of the clamped count as a natural number.\<close>

definition clampedIndex :: "int \<Rightarrow> nat" where
  "clampedIndex k = nat (min 7 (max 1 k) - 1)"

section \<open>Stores before loading\<close>

text \<open>The loader before any body mesh has arrived.\<close>

definition noMeshes :: "string \<Rightarrow> geometry option" where
  "noMeshes url = None"

section \<open>The framing box as specified\<close>

text \<open>
  The framing box as the specification words it: the union of the world boxes of exactly
  those meshes of the scene whose own largest dimension does not exceed the threshold.
\<close>

fun framed :: "object3d \<Rightarrow> bool" where
  "framed (MeshObject g m) = (\<not> meshDim g > MAX_MESH_SIZE)"
| "framed OtherObject = False"

fun worldBox :: "object3d \<Rightarrow> box3 option" where
  "worldBox (MeshObject g m) = Some (boxApplyMatrix4 m (computeBoundingBox g))"
| "worldBox OtherObject = None"

fun unionAll :: "box3 option \<Rightarrow> box3 list \<Rightarrow> box3 option" where
  "unionAll acc [] = acc"
| "unionAll acc (b # bs) = unionAll (union acc b) bs"

definition framingBox :: "scene \<Rightarrow> box3 option" where
  "framingBox sc = unionAll None (List.map_filter worldBox (filter framed (sobjects sc)))"

definition largestDimension :: "box3 option \<Rightarrow> real" where
  "largestDimension box = max (max (vx (sizeOf box)) (vy (sizeOf box))) (vz (sizeOf box))"

text \<open>The \<^verbatim>\<open>dist\<close> of \<^verbatim>\<open>takeSnapshot\<close>.\<close>

definition snapshotDistance :: "scene \<Rightarrow> real" where
  "snapshotDistance sc = distanceToFit (mmaxDim (getModelBox sc)) FOV_DEG 1.4"

section \<open>Sample scenes\<close>

text \<open>
  Two renderers, one drawing into the canvas and one into a target of its own; a scene
  holding only the 200 by 200 grid plane; a scene holding the grid and a 10 by 4 by 6 box
  moved by (1, 2, 3); a context that is ready.
\<close>

definition sampleRenderer :: renderer where
  "sampleRenderer =
     \<lparr>clearColor = Color ''#000000'', clearAlpha = 0,
      renderTarget = Some (WebGLRenderTarget 256 256)\<rparr>"

definition canvasRenderer :: renderer where
  "canvasRenderer = \<lparr>clearColor = Color ''#000000'', clearAlpha = 0, renderTarget = None\<rparr>"

definition identityMatrix :: matrix4 where
  "identityMatrix = Matrix4 1 0 0 0  0 1 0 0  0 0 1 0"

definition gridOnly :: scene where
  "gridOnly =
     \<lparr>sbackground = ColorBackground (Color ''#d4d4d4''),
      sobjects = [OtherObject,
                  MeshObject (Geometry (Vector3 (-100) (-100) 0) [Vector3 100 100 0])
                    identityMatrix]\<rparr>"

definition gridAndBox :: scene where
  "gridAndBox =
     \<lparr>sbackground = ColorBackground (Color ''#d4d4d4''),
      sobjects = [MeshObject (Geometry (Vector3 (-100) (-100) 0) [Vector3 100 100 0])
                    identityMatrix,
                  OtherObject,
                  MeshObject (Geometry (Vector3 0 0 0) [Vector3 10 4 6])
                    (Matrix4 1 0 0 1  0 1 0 2  0 0 1 3)]\<rparr>"

definition readyWith :: "scene \<Rightarrow> threlte" where
  "readyWith sc = \<lparr>trenderer = Some canvasRenderer, tscene = Some sc, tcamera = Some Camera\<rparr>"

section \<open>The naming rule as specified\<close>

text \<open>
  The words of the naming rule: the letter of a key as the export reads it (trimmed, empty
  where the list has none), whether an icon is assigned to the key, and whether the key
  carries a text legend, that is a letter and no icon.
\<close>

definition letterOf :: "props \<Rightarrow> nat \<Rightarrow> string" where
  "letterOf P i = (case elemAt (keycapLetters P) i of None \<Rightarrow> [] | Some l \<Rightarrow> trim l)"

definition iconAssigned :: "props \<Rightarrow> nat \<Rightarrow> bool" where
  "iconAssigned P i =
     (case elemAt (keycapSvgUrls P) i of Some (Some u) \<Rightarrow> trim u \<noteq> [] | _ \<Rightarrow> False)"

definition hasTextLegend :: "props \<Rightarrow> nat \<Rightarrow> bool" where
  "hasTextLegend P i = (letterOf P i \<noteq> [] \<and> \<not> iconAssigned P i)"

text \<open>The glyph meshes and the icon meshes among the parts of a file.\<close>

fun isTextPart :: "part \<Rightarrow> bool" where
  "isTextPart (TextPart g p) = True"
| "isTextPart _ = False"

fun isSvgPart :: "part \<Rightarrow> bool" where
  "isSvgPart (SvgPart g p) = True"
| "isSvgPart _ = False"

text \<open>Reading a decimal text back, to state that a file name encodes an index.\<close>

definition digitValue :: "char \<Rightarrow> nat" where
  "digitValue c = (case map_of (zip ''0123456789'' [0, 1, 2, 3, 4, 5, 6, 7, 8, 9]) c of
                     Some d \<Rightarrow> d | None \<Rightarrow> 0)"

definition readNat :: "string \<Rightarrow> nat" where
  "readNat s = foldl (\<lambda>a c. 10 * a + digitValue c) 0 s"

section \<open>Sample designs\<close>

text \<open>
  A keycap mesh 18 by 18 by 8 standing on its local plane \<open>z = 0\<close>; a font whose glyphs
  are 0.6 by 1 and as deep as asked; an icon cache with no entry; a one-key design with
  the letter a and the icon heart.svg on its key; a two-key design with a letter on the
  first key and an icon on the second.
\<close>

definition keycapCube :: geometry where
  "keycapCube = Geometry (Vector3 (-9) (-9) 0) [Vector3 9 9 8]"

definition sampleFont :: font where
  "sampleFont text depth = Geometry (Vector3 0 0 0) [Vector3 0.6 1 depth]"

definition noIcons :: "string \<rightharpoonup> geometry" where
  "noIcons url = None"

definition pendingIconProps :: props where
  "pendingIconProps =
     \<lparr>showBorder = False, numberOfKeys = 1, keycapPositionsProp = None, keycapLetters = [''a''],
      keycapSvgUrls = [Some ''heart.svg''], keycapSvgSizeMm = 8, textSizeMm = 8.7\<rparr>"

definition letterProps :: props where
  "letterProps =
     \<lparr>showBorder = False, numberOfKeys = 2, keycapPositionsProp = None,
      keycapLetters = ['' q'', ''''],
      keycapSvgUrls = [None, Some ''star.svg''], keycapSvgSizeMm = 8, textSizeMm = 8.7\<rparr>"

definition pendingIconStores :: stores where
  "pendingIconStores =
     \<lparr>clickerLoad = noMeshes, keycapGeometryStore = Some keycapCube, borderGeometryStore = None,
      fontStore = Some sampleFont, svgGeometryByUrl = noIcons\<rparr>"

section \<open>Coordinate extents\<close>

text \<open>
  The least and the greatest value of a coordinate over the vertices of a geometry, as the
  loop of \<^verbatim>\<open>computeBoundingBox\<close> accumulates them.
\<close>

fun lo :: "(vec3 \<Rightarrow> real) \<Rightarrow> geometry \<Rightarrow> real" where
  "lo sel (Geometry v vs) = fold (\<lambda>p m. min m (sel p)) vs (sel v)"

fun hi :: "(vec3 \<Rightarrow> real) \<Rightarrow> geometry \<Rightarrow> real" where
  "hi sel (Geometry v vs) = fold (\<lambda>p m. max m (sel p)) vs (sel v)"

section \<open>Sample icons and meshes\<close>

text \<open>
  Three icons: two shapes spanning 24 by 12, a square of side 1, a rectangle of 4000 by
  3000. A body mesh 40 by 20 by 10, a loader that has it for every URL, a border mesh 18 by 18 by 1, a keycap mesh whose local
  box starts at \<open>z = 1\<close>, and the label that \<^verbatim>\<open>keycapLabels\<close> computes for the letter a on
  the single key of the default layout over the sample body and keycap.
\<close>

definition wideIcon :: "shape list" where
  "wideIcon = [Shape (0, 0) [(24, 0), (24, 12)], Shape (4, 2) [(0, 12)]]"

definition tinyIcon :: "shape list" where
  "tinyIcon = [Shape (0, 0) [(1, 0), (1, 1), (0, 1)]]"

definition hugeIcon :: "shape list" where
  "hugeIcon = [Shape (0, 0) [(4000, 0), (4000, 3000), (0, 3000)]]"

definition bodyBlock :: geometry where
  "bodyBlock = Geometry (Vector3 0 0 0) [Vector3 40 20 10]"

definition allLoaded :: "string \<Rightarrow> geometry option" where
  "allLoaded url = Some bodyBlock"

definition borderRing :: geometry where
  "borderRing = Geometry (Vector3 (-9) (-9) 0) [Vector3 9 9 1]"

definition raisedCube :: geometry where
  "raisedCube = Geometry (Vector3 (-9) (-9) 1) [Vector3 9 9 9]"

definition sampleLabel :: label where
  "sampleLabel =
     \<lparr>lgeometry = centered (sampleFont ''A'' (LEGEND_DEPTH_MM / 8.7)), lposition = (4.5, 18, 0)\<rparr>"

text \<open>
  The merged extrusion of the first icon; an icon cache holding that icon, normalised,
  for heart.svg; and the mesh the template shows for it on the single key, at icon size 8.
\<close>

definition wideMerged :: geometry where
  "wideMerged =
     Geometry (Vector3 0 0 0)
       [Vector3 24 0 0, Vector3 24 12 0, Vector3 0 0 2, Vector3 24 0 2, Vector3 24 12 2,
        Vector3 4 2 0, Vector3 0 12 0, Vector3 4 2 2, Vector3 0 12 2]"

definition heartCache :: "string \<rightharpoonup> geometry" where
  "heartCache url = (if url = ''heart.svg'' then svgGeometry wideIcon else None)"

definition heartMesh :: mesh where
  "heartMesh =
     \<lparr>mgeometry = normalizeSvg wideMerged, mposition = (4.5, 18, 0),
      mscale = (8 * FILE_TO_MM, 8 * FILE_TO_MM, LEGEND_DEPTH_MM * FILE_TO_MM),
      mrotation_x = pi / 2\<rparr>"

section \<open>Key-count clamping\<close>

lemma clampedIndex_range: "clampedIndex k < 7"
  unfolding clampedIndex_def by simp

lemma clampedIndex_inside: "1 \<le> k \<Longrightarrow> k \<le> 7 \<Longrightarrow> clampedIndex k = nat (k - 1)"
  unfolding clampedIndex_def by simp

lemma keyIndex_of_int: "keyIndex (of_int k) = real (clampedIndex k)"
proof -
  have "keyIndex (of_int k) = of_int (min 7 (max 1 k) - 1)"
    unfolding keyIndex_def by (simp add: of_int_min of_int_max)
  also have "\<dots> = real (nat (min 7 (max 1 k) - 1))" by simp
  finally show ?thesis by (simp add: clampedIndex_def)
qed

lemma length_KEYCAP_POSITIONS: "length KEYCAP_POSITIONS = 7"
  unfolding KEYCAP_POSITIONS_def by simp

lemma length_CLICKER_URLS: "length CLICKER_URLS = 7"
  unfolding CLICKER_URLS_def by simp

lemma elemAtNumber_of_nat: "j < length xs \<Longrightarrow> elemAtNumber xs (real j) = Some (xs ! j)"
  unfolding elemAtNumber_def by simp

lemma elemAtNumber_KEYCAP_POSITIONS:
  "elemAtNumber KEYCAP_POSITIONS (keyIndex (of_int k)) = Some (KEYCAP_POSITIONS ! clampedIndex k)"
  unfolding keyIndex_of_int using clampedIndex_range [of k]
  by (simp add: elemAtNumber_of_nat length_KEYCAP_POSITIONS)

lemma clampedIndex_cases:
  "clampedIndex k = 0 \<or> clampedIndex k = 1 \<or> clampedIndex k = 2 \<or> clampedIndex k = 3
     \<or> clampedIndex k = 4 \<or> clampedIndex k = 5 \<or> clampedIndex k = 6"
  using clampedIndex_range [of k] by linarith

lemma default_row_length: "length (KEYCAP_POSITIONS ! clampedIndex k) = clampedIndex k + 1"
  using clampedIndex_cases [of k] unfolding KEYCAP_POSITIONS_def by auto

lemma default_row_zero_y:
  "p \<in> set (KEYCAP_POSITIONS ! clampedIndex k) \<Longrightarrow> fst (snd p) = 0"
  using clampedIndex_cases [of k] unfolding KEYCAP_POSITIONS_def by auto

lemma getDefaultPositions_row:
  "getDefaultPositions (of_int k) = KEYCAP_POSITIONS ! clampedIndex k"
  using elemAtNumber_KEYCAP_POSITIONS [of k]
  unfolding getDefaultPositions_def keyIndex_def by simp

lemma length_keycapMeshPositions:
  "length (keycapMeshPositions offset topY positions) = length positions"
  unfolding keycapMeshPositions_def by simp

text \<open>
  C10, as the code has it. For every whole key count \<open>k\<close>, also below 1 or above 7, the
  index computed from it is the clamped count \<open>min 7 (max 1 k)\<close> less one; it lies inside
  the list of seven body meshes and inside the default position table, so the store read,
  the geometry read and the default positions are those of the clamped count and no read
  falls outside its array.
\<close>

theorem keyIndex_clamped:
  "keyIndex (of_int k) = of_int (min 7 (max 1 k)) - 1 \<and>
   0 \<le> keyIndex (of_int k) \<and>
   keyIndex (of_int k) < real (length CLICKER_URLS) \<and>
   currentGeometryStore ld (of_int k) = Some (ld (CLICKER_URLS ! nat (min 7 (max 1 k) - 1))) \<and>
   stlGeometry ld (of_int k) = ld (CLICKER_URLS ! nat (min 7 (max 1 k) - 1)) \<and>
   elemAtNumber KEYCAP_POSITIONS (keyIndex (of_int k))
     = Some (KEYCAP_POSITIONS ! nat (min 7 (max 1 k) - 1)) \<and>
   getDefaultPositions (of_int k) = KEYCAP_POSITIONS ! nat (min 7 (max 1 k) - 1)"
proof -
  have i: "keyIndex (of_int k) = of_int (min 7 (max 1 k)) - 1"
    unfolding keyIndex_def by (simp add: of_int_min of_int_max)
  have r: "clampedIndex k < length CLICKER_URLS"
    using clampedIndex_range [of k] by (simp add: length_CLICKER_URLS)
  have b: "0 \<le> keyIndex (of_int k)" "keyIndex (of_int k) < real (length CLICKER_URLS)"
    unfolding keyIndex_of_int using r by simp_all
  have c: "currentGeometryStore ld (of_int k) = Some (ld (CLICKER_URLS ! clampedIndex k))"
    unfolding currentGeometryStore_def geometryStores_def keyIndex_of_int
    using r by (simp add: elemAtNumber_of_nat)
  show ?thesis
    using i b c elemAtNumber_KEYCAP_POSITIONS [of k] getDefaultPositions_row [of k]
    by (simp add: stlGeometry_def clampedIndex_def)
qed

text \<open>
  The claim as stated, for every value of the count, fails at a fractional count: for 2.5
  the index is 1.5, which names no element, so with every body mesh loaded no body mesh is
  selected, and the default positions are empty.
\<close>

theorem keyIndex_clamped_counterexample:
  "keyIndex 2.5 = 1.5 \<and>
   currentGeometryStore allLoaded 2.5 = None \<and>
   stlGeometry allLoaded 2.5 = None \<and>
   getDefaultPositions 2.5 = [] \<and>
   keycapPositions None 2.5 = []"
proof -
  have f: "\<lfloor>3 / 2 :: real\<rfloor> = 1" by simp
  have i: "keyIndex 2.5 = 3 / 2" by (simp add: keyIndex_def)
  have e: "\<And>xs :: geometry option list. elemAtNumber xs (3 / 2) = None"
    "\<And>xs :: pos3 list list. elemAtNumber xs (3 / 2) = None"
    unfolding elemAtNumber_def f by simp_all
  show ?thesis
    unfolding currentGeometryStore_def stlGeometry_def keycapPositions_def i
    by (simp add: e getDefaultPositions_def)
qed

section \<open>Placement cardinality\<close>

text \<open>
  C4, as the code has it. For a key count \<open>n\<close> from 1 to 7 the default table supplies
  exactly \<open>n\<close> entries, each with vertical offset zero, and with no positions from the
  caller (none, or an empty list) the layout places exactly \<open>n\<close> keycaps. With a non-empty
  list from the caller the layout places one keycap per entry of that list, whatever the
  key count.
\<close>

theorem placement_cardinality:
  "(1 \<le> n \<and> n \<le> 7 \<longrightarrow>
      length (getDefaultPositions (of_int n)) = nat n \<and>
      (\<forall>p \<in> set (getDefaultPositions (of_int n)). fst (snd p) = 0) \<and>
      length (keycapPlacements ld keycapGeom None (of_int n)) = nat n \<and>
      length (keycapPlacements ld keycapGeom (Some []) (of_int n)) = nat n) \<and>
   (ps \<noteq> [] \<longrightarrow> length (keycapPlacements ld keycapGeom (Some ps) count) = length ps)"
proof -
  have k: "keycapPositions None (of_int n) = KEYCAP_POSITIONS ! clampedIndex n"
      "keycapPositions (Some []) (of_int n) = KEYCAP_POSITIONS ! clampedIndex n"
    unfolding keycapPositions_def by (simp_all add: elemAtNumber_KEYCAP_POSITIONS)
  have l: "1 \<le> n \<Longrightarrow> n \<le> 7 \<Longrightarrow> clampedIndex n + 1 = nat n"
    by (simp add: clampedIndex_inside)
  have s: "ps \<noteq> [] \<Longrightarrow> keycapPositions (Some ps) count = ps"
    unfolding keycapPositions_def by simp
  show ?thesis
    using getDefaultPositions_row [of n] k l s default_row_length [of n]
      default_row_zero_y [of _ n]
    by (auto simp add: keycapPlacements_def length_keycapMeshPositions)
qed

theorem placement_cardinality_witness:
  "length (getDefaultPositions 3) = 3 \<and> length (keycapPlacements noMeshes None None 3) = 3
   \<and> length (keycapPlacements noMeshes None (Some [(1, 0, 2), (5, 0, 2)]) 3) = 2"
  using placement_cardinality [of 3 noMeshes None "[(1, 0, 2), (5, 0, 2)]" 3] by simp

text \<open>
  The claim as stated fails: with three keys configured and one position supplied by the
  caller, one keycap is placed.
\<close>

theorem placement_cardinality_counterexample:
  "length (keycapPlacements noMeshes None (Some [(0, 0, 0)]) 3) \<noteq> 3"
  by (simp add: keycapPlacements_def keycapMeshPositions_def keycapPositions_def)

section \<open>Snapshots: frame, readiness, framing\<close>

lemma showNat_digit: "n < 10 \<Longrightarrow> showNat n = [digit n]"
  by (simp add: showNat.simps)

lemma fold_visit_filter:
  "fold visit objs box = unionAll box (List.map_filter worldBox (filter framed objs))"
proof (induction objs arbitrary: box)
  case Nil
  then show ?case by (simp add: List.map_filter_simps)
next
  case (Cons ob objs)
  then show ?case by (cases ob) (simp_all add: List.map_filter_simps)
qed

lemma getModelBox_framing:
  "getModelBox sc =
     \<lparr>mcenter = centerOf (framingBox sc), msize = sizeOf (framingBox sc),
      mmaxDim = (if largestDimension (framingBox sc) = 0 then 80
                 else largestDimension (framingBox sc))\<rparr>"
  unfolding getModelBox_def framingBox_def largestDimension_def
  by (simp add: fold_visit_filter Let_def)

lemma captureView_renderer:
  "snd (captureView r sc position target) = r\<lparr>renderTarget := None\<rparr>"
  unfolding captureView_def setClearColor_def setClearAlpha_def setRenderTarget_def
  by (simp add: Let_def)

lemma takeSnapshot_ready:
  assumes "trenderer t = Some r" "tscene t = Some sc" "tcamera t = Some cam"
  shows "takeSnapshot canvas2d now t =
    (let mb = getModelBox sc;
         cx = vx (mcenter mb); cy = vy (mcenter mb); cz = vz (mcenter mb);
         dist = distanceToFit (mmaxDim mb) FOV_DEG 1.4
     in (t\<lparr>trenderer := Some (r\<lparr>renderTarget := None\<rparr>)\<rparr>,
         if canvas2d
         then [Download (''clicker-snapshot-'' @ showNat now @ ''.png'')
                 (fst (captureView r sc (cx, cy, cz + dist) (cx, cy, cz)))
                 (fst (captureView (r\<lparr>renderTarget := None\<rparr>) sc (cx, cy + dist, cz)
                    (cx, cy, cz))),
               SnapshotDownloaded]
         else []))"
  using assms unfolding takeSnapshot_def
  by (simp add: Let_def split_beta captureView_renderer)

lemma tan_half_fov: "0 < tan ((FOV_DEG / 2) * (pi / 180))"
  unfolding FOV_DEG_def by (rule tan_gt_zero) simp_all

lemma framingBox_gridAndBox:
  "framingBox gridAndBox = Some \<lparr>bmin = Vector3 1 2 3, bmax = Vector3 11 6 9\<rparr>"
  unfolding framingBox_def gridAndBox_def
  by (simp add: List.map_filter_simps meshDim_def MAX_MESH_SIZE_def expandByPoint_def
      boxApplyMatrix4_def union_def Let_def)

lemma framingBox_gridOnly: "framingBox gridOnly = None"
  unfolding framingBox_def gridOnly_def
  by (simp add: List.map_filter_simps meshDim_def MAX_MESH_SIZE_def expandByPoint_def Let_def)

text \<open>
  C9, as the code has it. \<^verbatim>\<open>captureView\<close> leaves the renderer's clear colour and clear
  alpha as they were before the call, and leaves the canvas as the active render target:
  the renderer after the call is the renderer before it with the render target reset to
  \<^verbatim>\<open>null\<close>. The target that was active before the call is not saved.
\<close>

theorem captureView_frame:
  "clearColor (snd (captureView r sc position target)) = clearColor r \<and>
   clearAlpha (snd (captureView r sc position target)) = clearAlpha r \<and>
   renderTarget (snd (captureView r sc position target)) = None \<and>
   snd (captureView r sc position target) = r\<lparr>renderTarget := None\<rparr>"
  by (simp add: captureView_renderer)

text \<open>
  The claim as stated fails for a renderer that was drawing into a render target of its
  own: after the call the active target is the canvas.
\<close>

theorem captureView_frame_counterexample:
  "renderTarget (snd (captureView sampleRenderer gridOnly (0, 0, 100) (0, 0, 0)))
     \<noteq> renderTarget sampleRenderer"
  by (simp add: captureView_renderer sampleRenderer_def)

text \<open>
  C6. When the renderer, the scene or the camera is missing, \<^verbatim>\<open>takeSnapshot\<close> returns at
  once: it gives no output and leaves the context, with its renderer and scene, as it was.
  The function has no failing branch.
\<close>

theorem snapshot_not_ready:
  "trenderer t = None \<or> tscene t = None \<or> tcamera t = None \<Longrightarrow>
   takeSnapshot canvas2d now t = (t, [])"
  unfolding takeSnapshot_def by (auto split: option.splits)

theorem snapshot_not_ready_witness:
  "takeSnapshot True 0 \<lparr>trenderer = Some canvasRenderer, tscene = Some gridOnly, tcamera = None\<rparr>
     = (\<lparr>trenderer = Some canvasRenderer, tscene = Some gridOnly, tcamera = None\<rparr>, [])"
  using snapshot_not_ready
    [of "\<lparr>trenderer = Some canvasRenderer, tscene = Some gridOnly, tcamera = None\<rparr>" True 0]
  by simp

text \<open>
  C8, as the code has it. With the context ready, the camera distance of a snapshot is
  \<open>(maxDimension / 2) / tan (fov / 2) * 1.4\<close> for the field of view of 45 degrees, where
  \<open>maxDimension\<close> is the largest dimension of the union of the world boxes of exactly those
  meshes whose own largest dimension does not exceed 150, or 80 when that largest
  dimension is zero (as for an empty union). The front view is taken from the box centre
  moved by the distance along Z, the top view from the centre moved by it along Y, both
  looking at the centre.
\<close>

theorem snapshot_distance:
  "trenderer t = Some r \<Longrightarrow> tscene t = Some sc \<Longrightarrow> tcamera t = Some cam \<Longrightarrow>
   (let m = largestDimension (framingBox sc);
        maxDimension = (if m = 0 then 80 else m);
        distance = maxDimension / 2 / tan ((45 / 2) * (pi / 180)) * 1.4;
        c = centerOf (framingBox sc)
    in snapshotDistance sc = distance \<and>
       snd (takeSnapshot True now t) =
         [Download (''clicker-snapshot-'' @ showNat now @ ''.png'')
            (fst (captureView r sc (vx c, vy c, vz c + distance) (vx c, vy c, vz c)))
            (fst (captureView (r\<lparr>renderTarget := None\<rparr>) sc (vx c, vy c + distance, vz c)
               (vx c, vy c, vz c))),
          SnapshotDownloaded])"
proof -
  assume a: "trenderer t = Some r" "tscene t = Some sc" "tcamera t = Some cam"
  have d: "snapshotDistance sc =
      (if largestDimension (framingBox sc) = 0 then 80 else largestDimension (framingBox sc))
        / 2 / tan ((45 / 2) * (pi / 180)) * 1.4"
    unfolding snapshotDistance_def distanceToFit_def FOV_DEG_def
    by (simp add: getModelBox_framing Let_def)
  have s: "snd (takeSnapshot True now t) =
      [Download (''clicker-snapshot-'' @ showNat now @ ''.png'')
         (fst (captureView r sc
            (vx (centerOf (framingBox sc)), vy (centerOf (framingBox sc)),
             vz (centerOf (framingBox sc)) + snapshotDistance sc)
            (vx (centerOf (framingBox sc)), vy (centerOf (framingBox sc)),
             vz (centerOf (framingBox sc)))))
         (fst (captureView (r\<lparr>renderTarget := None\<rparr>) sc
            (vx (centerOf (framingBox sc)), vy (centerOf (framingBox sc)) + snapshotDistance sc,
             vz (centerOf (framingBox sc)))
            (vx (centerOf (framingBox sc)), vy (centerOf (framingBox sc)),
             vz (centerOf (framingBox sc))))),
       SnapshotDownloaded]"
    unfolding takeSnapshot_ready [OF a] snapshotDistance_def
    by (simp add: Let_def getModelBox_framing)
  show ?thesis unfolding Let_def using d s by simp
qed

theorem snapshot_distance_witness:
  "snapshotDistance gridAndBox = 10 / 2 / tan ((45 / 2) * (pi / 180)) * 1.4 \<and>
   snd (takeSnapshot True 0 (readyWith gridAndBox)) =
     [Download ''clicker-snapshot-0.png''
        (fst (captureView canvasRenderer gridAndBox
           (6, 4, 6 + 10 / 2 / tan ((45 / 2) * (pi / 180)) * 1.4) (6, 4, 6)))
        (fst (captureView canvasRenderer gridAndBox
           (6, 4 + 10 / 2 / tan ((45 / 2) * (pi / 180)) * 1.4, 6) (6, 4, 6))),
      SnapshotDownloaded]"
  using snapshot_distance [of "readyWith gridAndBox" canvasRenderer gridAndBox Camera 0]
  by (simp add: readyWith_def framingBox_gridAndBox largestDimension_def sizeOf_def centerOf_def
      getSize_def getCenter_def canvasRenderer_def Let_def showNat_digit digit_def)

text \<open>
  The claim as stated fails where no mesh qualifies: the largest dimension of the empty
  union is zero, and the distance used is the one for 80.
\<close>

theorem snapshot_distance_counterexample:
  "snapshotDistance gridOnly
     \<noteq> largestDimension (framingBox gridOnly) / 2 / tan ((FOV_DEG / 2) * (pi / 180)) * 1.4"
proof -
  have "snapshotDistance gridOnly = 80 / 2 / tan ((FOV_DEG / 2) * (pi / 180)) * 1.4"
    unfolding snapshotDistance_def distanceToFit_def
    by (simp add: getModelBox_framing framingBox_gridOnly largestDimension_def sizeOf_def Let_def)
  moreover have "largestDimension (framingBox gridOnly) = 0"
    by (simp add: framingBox_gridOnly largestDimension_def sizeOf_def)
  ultimately show ?thesis using tan_half_fov by simp
qed

text \<open>
  C7, as the code has it. A snapshot requested while the context is ready and the scene
  holds no mesh that enters the framing (none has loaded; the grid is too large) finds the
  empty box, takes 80 as the largest dimension, renders both views towards the origin and,
  where the page gives a 2D canvas context, downloads the composite file and reports it.
  It produces no file where the 2D canvas context is missing.
\<close>

theorem snapshot_without_meshes:
  "trenderer t = Some r \<Longrightarrow> tscene t = Some sc \<Longrightarrow> tcamera t = Some cam \<Longrightarrow>
   filter framed (sobjects sc) = [] \<Longrightarrow>
   getModelBox sc = \<lparr>mcenter = Vector3 0 0 0, msize = Vector3 0 0 0, mmaxDim = 80\<rparr> \<and>
   snd (takeSnapshot True now t) =
     [Download (''clicker-snapshot-'' @ showNat now @ ''.png'')
        (fst (captureView r sc (0, 0, 0 + distanceToFit 80 FOV_DEG 1.4) (0, 0, 0)))
        (fst (captureView (r\<lparr>renderTarget := None\<rparr>) sc (0, 0 + distanceToFit 80 FOV_DEG 1.4, 0)
           (0, 0, 0))),
      SnapshotDownloaded] \<and>
   snd (takeSnapshot False now t) = []"
proof -
  assume a: "trenderer t = Some r" "tscene t = Some sc" "tcamera t = Some cam"
    and e: "filter framed (sobjects sc) = []"
  have f: "framingBox sc = None"
    unfolding framingBox_def using e by (simp add: List.map_filter_simps)
  have g: "getModelBox sc = \<lparr>mcenter = Vector3 0 0 0, msize = Vector3 0 0 0, mmaxDim = 80\<rparr>"
    by (simp add: getModelBox_framing f largestDimension_def sizeOf_def centerOf_def)
  show ?thesis
    unfolding takeSnapshot_ready [OF a] g by (simp add: Let_def)
qed

theorem snapshot_without_meshes_witness:
  "snd (takeSnapshot True 7 (readyWith gridOnly)) =
     [Download ''clicker-snapshot-7.png''
        (fst (captureView canvasRenderer gridOnly (0, 0, 0 + distanceToFit 80 FOV_DEG 1.4)
           (0, 0, 0)))
        (fst (captureView canvasRenderer gridOnly (0, 0 + distanceToFit 80 FOV_DEG 1.4, 0)
           (0, 0, 0))),
      SnapshotDownloaded]"
  using snapshot_without_meshes [of "readyWith gridOnly" canvasRenderer gridOnly Camera 7]
  by (simp add: readyWith_def gridOnly_def meshDim_def MAX_MESH_SIZE_def expandByPoint_def
      canvasRenderer_def showNat_digit digit_def)

text \<open>
  The claim as stated fails: with the context ready and only the grid in the scene, the
  snapshot produces its output.
\<close>

theorem snapshot_without_meshes_counterexample:
  "snd (takeSnapshot True 0 (readyWith gridOnly)) \<noteq> []"
  unfolding takeSnapshot_def readyWith_def by (simp add: Let_def split_beta)

section \<open>Export: file names and legend precedence\<close>

lemma digitValue_digit: "d < 10 \<Longrightarrow> digitValue (digit d) = d"
proof -
  assume "d < 10"
  then have "d = 0 \<or> d = 1 \<or> d = 2 \<or> d = 3 \<or> d = 4 \<or> d = 5 \<or> d = 6 \<or> d = 7 \<or> d = 8 \<or> d = 9"
    by arith
  then show ?thesis by (auto simp add: digitValue_def digit_def)
qed

lemma readNat_showNat: "readNat (showNat n) = n"
proof (induction n rule: showNat.induct)
  case (1 n)
  show ?case
  proof (cases "n < 10")
    case True
    then show ?thesis by (simp add: showNat.simps [of n] readNat_def digitValue_digit)
  next
    case False
    then have "readNat (showNat (n div 10)) = n div 10" using 1 by simp
    then show ?thesis
      using False by (simp add: showNat.simps [of n] readNat_def digitValue_digit)
  qed
qed

lemma export_svgUrl_truthy:
  "truthy (case elemAt (keycapSvgUrls P) i of None \<Rightarrow> None | Some u \<Rightarrow> map_option trim u)
     = iconAssigned P i"
  unfolding iconAssigned_def truthy_def by (simp split: option.splits)

lemma exportKeycapAt_fname:
  assumes "i < length (propPositions P)"
  shows "map_option fname (exportKeycapAt P S kg i) =
     Some (if hasTextLegend P i
           then ''keycap-'' @ showNat (i + 1) @ ''-'' @ toUpperCase (letterOf P i) @ ''.stl''
           else ''keycap-'' @ showNat (i + 1) @ ''.stl'')"
  using assms
  unfolding exportKeycapAt_def hasTextLegend_def letterOf_def
  by (simp add: Let_def length_keycapMeshPositions export_svgUrl_truthy split: option.splits)

text \<open>
  C5. For every index \<open>i\<close> that is exported (0-based, below the number of placements) a
  file is produced, and its name is \<open>keycap-\<close>, the decimal text of \<open>i + 1\<close>, and
  \<open>.stl\<close>, with \<open>-\<close> and the upper-cased letter in between if and only if the key carries
  a text legend: a letter that is not empty once trimmed and no icon assigned. Keys with
  an icon and keys with no legend get the name with the index only.
\<close>

theorem export_file_name:
  "i < length (propPositions P) \<Longrightarrow>
   (\<exists>f. exportKeycapAt P S kg i = Some f \<and>
      (hasTextLegend P i \<longrightarrow>
         fname f = ''keycap-'' @ showNat (i + 1) @ ''-'' @ toUpperCase (letterOf P i) @ ''.stl'') \<and>
      (\<not> hasTextLegend P i \<longrightarrow> fname f = ''keycap-'' @ showNat (i + 1) @ ''.stl'') \<and>
      (hasTextLegend P i \<longleftrightarrow> fname f \<noteq> ''keycap-'' @ showNat (i + 1) @ ''.stl'')) \<and>
   readNat (showNat (i + 1)) = i + 1"
proof -
  assume a: "i < length (propPositions P)"
  from exportKeycapAt_fname [OF a, of S kg]
  obtain f where f: "exportKeycapAt P S kg i = Some f"
    and n: "fname f = (if hasTextLegend P i
           then ''keycap-'' @ showNat (i + 1) @ ''-'' @ toUpperCase (letterOf P i) @ ''.stl''
           else ''keycap-'' @ showNat (i + 1) @ ''.stl'')"
    by (cases "exportKeycapAt P S kg i") auto
  show ?thesis using f n by (simp add: readNat_showNat)
qed


theorem export_file_name_witness:
  "map_option fname (exportKeycapAt letterProps pendingIconStores keycapCube 0)
     = Some ''keycap-1-Q.stl'' \<and>
   map_option fname (exportKeycapAt letterProps pendingIconStores keycapCube 1)
     = Some ''keycap-2.stl''"
proof -
  have p: "propPositions letterProps = [(-6.5, 0, 0), (15.5, 0, 0)]"
    by (simp add: propPositions_def letterProps_def keycapPositions_def elemAt_def elemAtNumber_def keyIndex_def
        KEYCAP_POSITIONS_def)
  have t: "hasTextLegend letterProps 0" "\<not> hasTextLegend letterProps (Suc 0)"
    "letterOf letterProps 0 = ''q''"
    by (simp_all add: hasTextLegend_def letterOf_def iconAssigned_def letterProps_def elemAt_def
        trim_def isSpace_def)
  have s: "showNat (Suc 0) = ''1''" "showNat (Suc (Suc 0)) = ''2''"
    by (simp_all add: showNat_digit digit_def)
  show ?thesis
    using export_file_name [of 0 letterProps pendingIconStores keycapCube]
      export_file_name [of "Suc 0" letterProps pendingIconStores keycapCube] p t s
    by (auto simp add: toUpperCase_def upperChar_def)
qed

lemma trim_nonempty: "trim u \<noteq> [] \<Longrightarrow> u \<noteq> []"
  by (auto simp add: trim_def)

lemma icon_exported_when_cached:
  assumes "i < length (propPositions P)"
    and "elemAt (keycapSvgUrls P) i = Some (Some u)" and "trim u \<noteq> []"
    and "svgGeometryByUrl S (trim u) = Some g"
  shows "\<exists>f. exportKeycapAt P S kg i = Some f \<and> filter isTextPart (fparts f) = [] \<and>
           filter isSvgPart (fparts f)
             = [SvgPart g (legendPosition (keycapOffset (keycapGeometryStore S)) (propTopY P S)
                  (propPositions P ! i))]"
  using assms unfolding exportKeycapAt_def
  by (simp add: Let_def length_keycapMeshPositions truthy_def split: option.splits)

lemma letter_exported_when_icon_pending:
  assumes "i < length (propPositions P)"
    and "elemAt (keycapSvgUrls P) i = Some (Some u)" and "trim u \<noteq> []"
    and "svgGeometryByUrl S (trim u) = None"
    and "letterOf P i \<noteq> []" and "fontStore S = Some f"
  shows "\<exists>file. exportKeycapAt P S kg i = Some file \<and>
           filter isTextPart (fparts file)
             = [TextPart (centered (f (take 1 (toUpperCase (letterOf P i)))
                   (LEGEND_DEPTH_MM / textSizeMm P)))
                 (legendPosition (keycapOffset (keycapGeometryStore S)) (propTopY P S)
                    (propPositions P ! i))] \<and>
           filter isSvgPart (fparts file) = []"
  using assms unfolding exportKeycapAt_def letterOf_def
  by (auto simp add: Let_def length_keycapMeshPositions truthy_def split: option.splits)

lemma no_letter_displayed_with_icon:
  assumes "elemAt (keycapSvgUrls P) i = Some (Some u)" and "trim u \<noteq> []"
  shows "displayedLabel P S i = None"
  using assms trim_nonempty [of u] unfolding displayedLabel_def keycapLabelAt_def
  by (simp add: truthy_def split: option.splits)

text \<open>
  C3 at a key that has both the icon heart.svg and the letter a, while the icon's geometry
  is not in the cache and the font is loaded: the exported file, named by the index only,
  holds the glyph of A and no icon; the live scene shows neither a letter nor an icon.
\<close>

theorem pending_icon_export:
  "exportKeycapAt pendingIconProps pendingIconStores keycapCube 0 =
     Some \<lparr>fname = ''keycap-1.stl'',
           fparts = [KeycapPart keycapCube (4.5, 0, 0),
                     TextPart (centered (sampleFont ''A'' (LEGEND_DEPTH_MM / 8.7))) (4.5, 8, 0)]\<rparr> \<and>
   displayedLabel pendingIconProps pendingIconStores 0 = None \<and>
   displayedIcon pendingIconProps pendingIconStores 0 = None"
proof -
  have p: "propPositions pendingIconProps = [(4.5, 0, 0)]"
    by (simp add: propPositions_def pendingIconProps_def keycapPositions_def elemAt_def
        elemAtNumber_def keyIndex_def KEYCAP_POSITIONS_def)
  have t: "propTopY pendingIconProps pendingIconStores = 0"
    by (simp add: propTopY_def pendingIconStores_def stlGeometry_def currentGeometryStore_def
        geometryStores_def elemAtNumber_def noMeshes_def clickerTopY_def split: option.splits)
  have o: "keycapOffset (keycapGeometryStore pendingIconStores)
             = \<lparr>center = (0, 0, 4), minZ = 0, maxZ = 8\<rparr>"
    by (simp add: keycapOffset_def pendingIconStores_def keycapCube_def expandByPoint_def
        getCenter_def Let_def)
  have e: "exportKeycapAt pendingIconProps pendingIconStores keycapCube 0 =
     Some \<lparr>fname = ''keycap-1.stl'',
           fparts = [KeycapPart keycapCube (4.5, 0, 0),
                     TextPart (centered (sampleFont ''A'' (LEGEND_DEPTH_MM / 8.7))) (4.5, 8, 0)]\<rparr>"
    unfolding exportKeycapAt_def p t o
    by (simp add: Let_def keycapMeshPositions_def pendingIconProps_def pendingIconStores_def
        elemAt_def trim_def isSpace_def truthy_def noIcons_def toUpperCase_def upperChar_def
        legendPosition_def showNat_digit digit_def)
  have l: "displayedLabel pendingIconProps pendingIconStores 0 = None"
    by (rule no_letter_displayed_with_icon [of _ _ "''heart.svg''"])
      (simp_all add: pendingIconProps_def elemAt_def trim_def isSpace_def)
  have d: "displayedIcon pendingIconProps pendingIconStores 0 = None"
    unfolding displayedIcon_def p
    by (simp add: keycapSvgSlotAt_def svgSlotMesh_def pendingIconProps_def pendingIconStores_def
        elemAt_def trim_def isSpace_def noIcons_def)
  show ?thesis using e l d by simp
qed

section \<open>Bounding boxes\<close>

lemma bmin_expandByPoint:
  "bmin (expandByPoint p b)
     = Vector3 (min (vx (bmin b)) (vx p)) (min (vy (bmin b)) (vy p)) (min (vz (bmin b)) (vz p))"
  by (simp add: expandByPoint_def)

lemma bmax_expandByPoint:
  "bmax (expandByPoint p b)
     = Vector3 (max (vx (bmax b)) (vx p)) (max (vy (bmax b)) (vy p)) (max (vz (bmax b)) (vz p))"
  by (simp add: expandByPoint_def)

lemma fold_expandByPoint:
  "fold expandByPoint vs b =
     \<lparr>bmin = Vector3 (fold (\<lambda>p m. min m (vx p)) vs (vx (bmin b)))
                     (fold (\<lambda>p m. min m (vy p)) vs (vy (bmin b)))
                     (fold (\<lambda>p m. min m (vz p)) vs (vz (bmin b))),
      bmax = Vector3 (fold (\<lambda>p m. max m (vx p)) vs (vx (bmax b)))
                     (fold (\<lambda>p m. max m (vy p)) vs (vy (bmax b)))
                     (fold (\<lambda>p m. max m (vz p)) vs (vz (bmax b)))\<rparr>"
proof (induction vs arbitrary: b)
  case Nil
  show ?case by simp
next
  case (Cons p vs)
  show ?case by (simp add: Cons.IH bmin_expandByPoint bmax_expandByPoint)
qed

lemma computeBoundingBox_lo_hi:
  "computeBoundingBox g =
     \<lparr>bmin = Vector3 (lo vx g) (lo vy g) (lo vz g), bmax = Vector3 (hi vx g) (hi vy g) (hi vz g)\<rparr>"
  by (cases g) (simp add: fold_expandByPoint)

lemma fold_min_le: "fold (\<lambda>p m. min m (s p)) vs a \<le> (a::real)"
proof (induction vs arbitrary: a)
  case Nil
  show ?case by simp
next
  case (Cons q vs)
  have "fold (\<lambda>p m. min m (s p)) vs (min a (s q)) \<le> min a (s q)" by (rule Cons.IH)
  also have "min a (s q) \<le> a" by simp
  finally show ?case by simp
qed

lemma fold_min_le_elem: "p \<in> set vs \<Longrightarrow> fold (\<lambda>p m. min m (s p)) vs (a::real) \<le> s p"
proof (induction vs arbitrary: a)
  case Nil
  then show ?case by simp
next
  case (Cons q vs)
  show ?case
  proof (cases "p = q")
    case True
    have "fold (\<lambda>p m. min m (s p)) vs (min a (s q)) \<le> min a (s q)" by (rule fold_min_le)
    also have "min a (s q) \<le> s q" by simp
    finally show ?thesis using True by simp
  next
    case False
    then show ?thesis using Cons by simp
  qed
qed

lemma fold_min_attained:
  "fold (\<lambda>p m. min m (s p)) vs (a::real) = a \<or> (\<exists>p \<in> set vs. fold (\<lambda>p m. min m (s p)) vs a = s p)"
proof (induction vs arbitrary: a)
  case Nil
  show ?case by simp
next
  case (Cons q vs)
  from Cons.IH [of "min a (s q)"] show ?case by (auto simp add: min_def split: if_splits)
qed

lemma fold_max_ge: "(a::real) \<le> fold (\<lambda>p m. max m (s p)) vs a"
proof (induction vs arbitrary: a)
  case Nil
  show ?case by simp
next
  case (Cons q vs)
  have "a \<le> max a (s q)" by simp
  also have "max a (s q) \<le> fold (\<lambda>p m. max m (s p)) vs (max a (s q))" by (rule Cons.IH)
  finally show ?case by simp
qed

lemma fold_max_ge_elem: "p \<in> set vs \<Longrightarrow> s p \<le> fold (\<lambda>p m. max m (s p)) vs (a::real)"
proof (induction vs arbitrary: a)
  case Nil
  then show ?case by simp
next
  case (Cons q vs)
  show ?case
  proof (cases "p = q")
    case True
    have "s q \<le> max a (s q)" by simp
    also have "max a (s q) \<le> fold (\<lambda>p m. max m (s p)) vs (max a (s q))" by (rule fold_max_ge)
    finally show ?thesis using True by simp
  next
    case False
    then show ?thesis using Cons by simp
  qed
qed

lemma fold_max_attained:
  "fold (\<lambda>p m. max m (s p)) vs (a::real) = a \<or> (\<exists>p \<in> set vs. fold (\<lambda>p m. max m (s p)) vs a = s p)"
proof (induction vs arbitrary: a)
  case Nil
  show ?case by simp
next
  case (Cons q vs)
  from Cons.IH [of "max a (s q)"] show ?case by (auto simp add: max_def split: if_splits)
qed

lemma lo_le: "p \<in> set (vertices g) \<Longrightarrow> lo s g \<le> s p"
  by (cases g) (auto simp add: fold_min_le fold_min_le_elem)

lemma lo_attained: "\<exists>p \<in> set (vertices g). lo s g = s p"
proof (cases g)
  case (Geometry v vs)
  then show ?thesis using fold_min_attained [of s vs "s v"] by auto
qed

lemma hi_ge: "p \<in> set (vertices g) \<Longrightarrow> s p \<le> hi s g"
  by (cases g) (auto simp add: fold_max_ge fold_max_ge_elem)

lemma hi_attained: "\<exists>p \<in> set (vertices g). hi s g = s p"
proof (cases g)
  case (Geometry v vs)
  then show ?thesis using fold_max_attained [of s vs "s v"] by auto
qed

lemma lo_eqI:
  assumes "\<And>p. p \<in> set (vertices g) \<Longrightarrow> m \<le> s p" and "\<exists>p \<in> set (vertices g). m = s p"
  shows "lo s g = m"
proof (rule antisym)
  from assms(2) obtain p where "p \<in> set (vertices g)" "m = s p" by blast
  then show "lo s g \<le> m" using lo_le [of p g s] by simp
  from lo_attained [of g s] obtain q where "q \<in> set (vertices g)" "lo s g = s q" by blast
  then show "m \<le> lo s g" using assms(1) by simp
qed

lemma hi_eqI:
  assumes "\<And>p. p \<in> set (vertices g) \<Longrightarrow> s p \<le> m" and "\<exists>p \<in> set (vertices g). m = s p"
  shows "hi s g = m"
proof (rule antisym)
  from assms(2) obtain p where "p \<in> set (vertices g)" "m = s p" by blast
  then show "m \<le> hi s g" using hi_ge [of p g s] by simp
  from hi_attained [of g s] obtain q where "q \<in> set (vertices g)" "hi s g = s q" by blast
  then show "hi s g \<le> m" using assms(1) by simp
qed

lemma lo_le_hi: "lo s g \<le> hi s g"
proof -
  from lo_attained [of g s] obtain p where "p \<in> set (vertices g)" "lo s g = s p" by blast
  then show ?thesis using hi_ge [of p g s] by simp
qed

lemma vertices_mapGeometry: "vertices (mapGeometry f g) = map f (vertices g)"
  by (cases g) simp

lemma lo_affine_up:
  assumes "0 \<le> k" and "\<And>p. h (f p) = c + k * s p"
  shows "lo h (mapGeometry f g) = c + k * lo s g"
proof (rule lo_eqI)
  fix p assume "p \<in> set (vertices (mapGeometry f g))"
  then obtain q where q: "q \<in> set (vertices g)" "p = f q"
    by (auto simp add: vertices_mapGeometry)
  have "k * lo s g \<le> k * s q" using lo_le [OF q(1), of s] assms(1) by (rule mult_left_mono)
  then show "c + k * lo s g \<le> h p" using q(2) assms(2) by simp
next
  from lo_attained [of g s] obtain q where "q \<in> set (vertices g)" "lo s g = s q" by blast
  then show "\<exists>p \<in> set (vertices (mapGeometry f g)). c + k * lo s g = h p"
    using assms(2) by (auto simp add: vertices_mapGeometry)
qed

lemma hi_affine_up:
  assumes "0 \<le> k" and "\<And>p. h (f p) = c + k * s p"
  shows "hi h (mapGeometry f g) = c + k * hi s g"
proof (rule hi_eqI)
  fix p assume "p \<in> set (vertices (mapGeometry f g))"
  then obtain q where q: "q \<in> set (vertices g)" "p = f q"
    by (auto simp add: vertices_mapGeometry)
  have "k * s q \<le> k * hi s g" using hi_ge [OF q(1), of s] assms(1) by (rule mult_left_mono)
  then show "h p \<le> c + k * hi s g" using q(2) assms(2) by simp
next
  from hi_attained [of g s] obtain q where "q \<in> set (vertices g)" "hi s g = s q" by blast
  then show "\<exists>p \<in> set (vertices (mapGeometry f g)). c + k * hi s g = h p"
    using assms(2) by (auto simp add: vertices_mapGeometry)
qed

lemma lo_affine_down:
  assumes "k \<le> 0" and "\<And>p. h (f p) = c + k * s p"
  shows "lo h (mapGeometry f g) = c + k * hi s g"
proof (rule lo_eqI)
  fix p assume "p \<in> set (vertices (mapGeometry f g))"
  then obtain q where q: "q \<in> set (vertices g)" "p = f q"
    by (auto simp add: vertices_mapGeometry)
  have "k * hi s g \<le> k * s q" using hi_ge [OF q(1), of s] assms(1) by (rule mult_left_mono_neg)
  then show "c + k * hi s g \<le> h p" using q(2) assms(2) by simp
next
  from hi_attained [of g s] obtain q where "q \<in> set (vertices g)" "hi s g = s q" by blast
  then show "\<exists>p \<in> set (vertices (mapGeometry f g)). c + k * hi s g = h p"
    using assms(2) by (auto simp add: vertices_mapGeometry)
qed

lemma hi_affine_down:
  assumes "k \<le> 0" and "\<And>p. h (f p) = c + k * s p"
  shows "hi h (mapGeometry f g) = c + k * lo s g"
proof (rule hi_eqI)
  fix p assume "p \<in> set (vertices (mapGeometry f g))"
  then obtain q where q: "q \<in> set (vertices g)" "p = f q"
    by (auto simp add: vertices_mapGeometry)
  have "k * s q \<le> k * lo s g" using lo_le [OF q(1), of s] assms(1) by (rule mult_left_mono_neg)
  then show "h p \<le> c + k * lo s g" using q(2) assms(2) by simp
next
  from lo_attained [of g s] obtain q where "q \<in> set (vertices g)" "lo s g = s q" by blast
  then show "\<exists>p \<in> set (vertices (mapGeometry f g)). c + k * lo s g = h p"
    using assms(2) by (auto simp add: vertices_mapGeometry)
qed

section \<open>Icon normalisation\<close>

lemma getSize_lo_hi:
  "getSize (computeBoundingBox g)
     = Vector3 (hi vx g - lo vx g) (hi vy g - lo vy g) (hi vz g - lo vz g)"
  by (simp add: computeBoundingBox_lo_hi getSize_def)

lemma lo_translate:
  "lo vx (translate a b c g) = lo vx g + a" "lo vy (translate a b c g) = lo vy g + b"
  "lo vz (translate a b c g) = lo vz g + c"
  unfolding translate_def
  by (subst lo_affine_up [where k = 1 and s = vx and c = a], simp, simp, simp,
      subst lo_affine_up [where k = 1 and s = vy and c = b], simp, simp, simp,
      subst lo_affine_up [where k = 1 and s = vz and c = c], simp, simp, simp)

lemma hi_translate:
  "hi vx (translate a b c g) = hi vx g + a" "hi vy (translate a b c g) = hi vy g + b"
  "hi vz (translate a b c g) = hi vz g + c"
  unfolding translate_def
  by (subst hi_affine_up [where k = 1 and s = vx and c = a], simp, simp, simp,
      subst hi_affine_up [where k = 1 and s = vy and c = b], simp, simp, simp,
      subst hi_affine_up [where k = 1 and s = vz and c = c], simp, simp, simp)

lemma lo_scale:
  assumes "0 \<le> a" "0 \<le> b" "0 \<le> c"
  shows "lo vx (scale a b c g) = a * lo vx g" "lo vy (scale a b c g) = b * lo vy g"
    "lo vz (scale a b c g) = c * lo vz g"
  unfolding scale_def
  using lo_affine_up [where k = a and s = vx and c = 0 and h = vx and g = g, OF assms(1)]
    lo_affine_up [where k = b and s = vy and c = 0 and h = vy and g = g, OF assms(2)]
    lo_affine_up [where k = c and s = vz and c = 0 and h = vz and g = g, OF assms(3)]
  by (simp_all add: mult.commute)

lemma hi_scale:
  assumes "0 \<le> a" "0 \<le> b" "0 \<le> c"
  shows "hi vx (scale a b c g) = a * hi vx g" "hi vy (scale a b c g) = b * hi vy g"
    "hi vz (scale a b c g) = c * hi vz g"
  unfolding scale_def
  using hi_affine_up [where k = a and s = vx and c = 0 and h = vx and g = g, OF assms(1)]
    hi_affine_up [where k = b and s = vy and c = 0 and h = vy and g = g, OF assms(2)]
    hi_affine_up [where k = c and s = vz and c = 0 and h = vz and g = g, OF assms(3)]
  by (simp_all add: mult.commute)

lemma getSize_translate:
  "getSize (computeBoundingBox (translate a b c g)) = getSize (computeBoundingBox g)"
  by (simp add: getSize_lo_hi lo_translate hi_translate)

lemma getSize_scale:
  assumes "0 \<le> a" "0 \<le> b" "0 \<le> c"
  shows "getSize (computeBoundingBox (scale a b c g))
     = Vector3 (a * vx (getSize (computeBoundingBox g))) (b * vy (getSize (computeBoundingBox g)))
         (c * vz (getSize (computeBoundingBox g)))"
  by (simp add: getSize_lo_hi lo_scale [OF assms] hi_scale [OF assms] right_diff_distrib)

lemma box_z_extent:
  "vz (bmax (computeBoundingBox g)) - vz (bmin (computeBoundingBox g))
     = vz (getSize (computeBoundingBox g))"
  by (simp add: getSize_def)

lemma normalizeSvg_size:
  fixes g :: geometry
  defines "sz \<equiv> getSize (computeBoundingBox g)"
  defines "maxDim \<equiv> max (max (max (vx sz) (vy sz)) (vz sz)) 0.001"
  shows "getSize (computeBoundingBox (normalizeSvg g))
     = Vector3 (vx sz / maxDim) (vy sz / maxDim)
         (if vz sz / maxDim > 0.001 then 1 else vz sz / maxDim)"
proof -
  have m: "0 < maxDim" unfolding maxDim_def by simp
  define g1 where "g1 = translate (- vx (getCenter (computeBoundingBox g)))
    (- vy (getCenter (computeBoundingBox g))) (- vz (getCenter (computeBoundingBox g))) g"
  have s1: "getSize (computeBoundingBox g1) = sz"
    unfolding g1_def sz_def by (rule getSize_translate)
  define g2 where "g2 = scale (1 / maxDim) (1 / maxDim) (1 / maxDim) g1"
  have s2: "getSize (computeBoundingBox g2)
      = Vector3 (vx sz / maxDim) (vy sz / maxDim) (vz sz / maxDim)"
    unfolding g2_def using m by (simp add: getSize_scale s1)
  have n: "normalizeSvg g =
      (if vz sz / maxDim > 0.001 then scale 1 1 (1 / (vz sz / maxDim)) g2 else g2)"
    unfolding normalizeSvg_def Let_def box_z_extent
    unfolding g1_def [symmetric] s1 maxDim_def [symmetric] g2_def [symmetric] s2
    by simp
  show ?thesis
  proof (cases "vz sz / maxDim > 0.001")
    case True
    have "(0::real) < 0.001" by simp
    from this True have p: "0 < vz sz / maxDim" by (rule less_trans)
    then have "0 \<le> 1 / (vz sz / maxDim)" by (simp only: zero_le_divide_1_iff less_imp_le)
    then have "getSize (computeBoundingBox (scale 1 1 (1 / (vz sz / maxDim)) g2))
        = Vector3 (1 * (vx sz / maxDim)) (1 * (vy sz / maxDim))
            (1 / (vz sz / maxDim) * (vz sz / maxDim))"
      by (simp only: getSize_scale [of 1 1] s2 vec3.sel zero_le_one)
    moreover have "vz sz \<noteq> 0" using p by auto
    ultimately show ?thesis using True m unfolding n by simp
  next
    case False
    then show ?thesis unfolding n by (simp add: s2)
  qed
qed

lemma extrude_vertices_z:
  "p \<in> set (vertices (ExtrudeGeometry sh d)) \<Longrightarrow> vz p = 0 \<or> vz p = d"
  by (cases sh) auto

lemma extrude_has_front: "\<exists>p \<in> set (vertices (ExtrudeGeometry sh d)). vz p = 0"
  by (cases sh) auto

lemma extrude_has_back: "\<exists>p \<in> set (vertices (ExtrudeGeometry sh d)). vz p = d"
  by (cases sh) auto

lemma mergeGeometries_vertices:
  "mergeGeometries (g # gs) = Some m \<Longrightarrow>
   set (vertices m) = set (vertices g) \<union> (\<Union>h \<in> set gs. set (vertices h))"
  by (cases g) auto

lemma mergedGeometry_vertices:
  assumes "mergedGeometry shapes = Some m"
  shows "shapes \<noteq> [] \<and>
    set (vertices m) = (\<Union>sh \<in> set shapes. set (vertices (ExtrudeGeometry sh SVG_EXTRUDE_DEPTH)))"
proof (cases shapes)
  case Nil
  then show ?thesis using assms by (simp add: mergedGeometry_def)
next
  case (Cons sh rest)
  show ?thesis
  proof (cases rest)
    case Nil
    then show ?thesis using assms Cons by (simp add: mergedGeometry_def)
  next
    case (Cons sh2 rest2)
    then have "mergeGeometries (ExtrudeGeometry sh SVG_EXTRUDE_DEPTH
        # map (\<lambda>sh. ExtrudeGeometry sh SVG_EXTRUDE_DEPTH) rest) = Some m"
      using assms \<open>shapes = sh # rest\<close> by (simp add: mergedGeometry_def)
    from mergeGeometries_vertices [OF this] show ?thesis
      using \<open>shapes = sh # rest\<close> by simp
  qed
qed

lemma mergedGeometry_depth:
  assumes "mergedGeometry shapes = Some m"
  shows "depthOf m = SVG_EXTRUDE_DEPTH"
proof -
  from mergedGeometry_vertices [OF assms] obtain sh where sh: "sh \<in> set shapes"
    and v: "set (vertices m)
      = (\<Union>sh \<in> set shapes. set (vertices (ExtrudeGeometry sh SVG_EXTRUDE_DEPTH)))"
    by (cases shapes) auto
  have z: "\<And>p. p \<in> set (vertices m) \<Longrightarrow> vz p = 0 \<or> vz p = SVG_EXTRUDE_DEPTH"
    unfolding v using extrude_vertices_z by blast
  have d: "0 \<le> SVG_EXTRUDE_DEPTH" by (simp add: SVG_EXTRUDE_DEPTH_def)
  have "lo vz m = 0"
  proof (rule lo_eqI)
    fix p assume "p \<in> set (vertices m)"
    then show "0 \<le> vz p" using z [of p] d by auto
  next
    show "\<exists>p \<in> set (vertices m). 0 = vz p"
      unfolding v using sh extrude_has_front [of sh SVG_EXTRUDE_DEPTH] by force
  qed
  moreover have "hi vz m = SVG_EXTRUDE_DEPTH"
  proof (rule hi_eqI)
    fix p assume "p \<in> set (vertices m)"
    then show "vz p \<le> SVG_EXTRUDE_DEPTH" using z [of p] d by auto
  next
    show "\<exists>p \<in> set (vertices m). SVG_EXTRUDE_DEPTH = vz p"
      unfolding v using sh extrude_has_back [of sh SVG_EXTRUDE_DEPTH] by force
  qed
  ultimately show ?thesis by (simp add: depthOf_def getSize_lo_hi)
qed

text \<open>
  Where both passes do what their comments say: for an icon whose merged extrusion has a
  larger in-plane dimension \<open>M\<close> with \<open>SVG_EXTRUDE_DEPTH \<le> M < 2000\<close>, the stored legend
  geometry has its larger in-plane dimension exactly 1 and its depth exactly 1.
\<close>

lemma icon_normalized_in_range:
  assumes "mergedGeometry shapes = Some merged"
    and "SVG_EXTRUDE_DEPTH \<le> inPlaneMax merged" and "inPlaneMax merged < 2000"
  shows "map_option inPlaneMax (svgGeometry shapes) = Some 1 \<and>
         map_option depthOf (svgGeometry shapes) = Some 1"
proof -
  define sz where "sz = getSize (computeBoundingBox merged)"
  define M where "M = max (vx sz) (vy sz)"
  have d: "vz sz = 2"
    using mergedGeometry_depth [OF assms(1)] by (simp add: depthOf_def sz_def SVG_EXTRUDE_DEPTH_def)
  have M: "2 \<le> M" "M < 2000"
    using assms(2,3) by (simp_all add: inPlaneMax_def M_def sz_def SVG_EXTRUDE_DEPTH_def Let_def)
  have m: "max (max (max (vx sz) (vy sz)) (vz sz)) 0.001 = M"
    unfolding M_def [symmetric] d using M(1) by simp
  have z: "vz sz / M > 0.001" unfolding d using M by (simp add: field_simps)
  have n: "getSize (computeBoundingBox (normalizeSvg merged)) = Vector3 (vx sz / M) (vy sz / M) 1"
    using normalizeSvg_size [of merged] z unfolding sz_def [symmetric] m by simp
  have p: "0 \<le> M" using M(1) by simp
  have "max (vx sz / M) (vy sz / M) = max (vx sz) (vy sz) / M"
  proof (cases "vx sz \<le> vy sz")
    case True
    then have "vx sz / M \<le> vy sz / M" using p by (rule divide_right_mono)
    then show ?thesis using True by (simp add: max_def)
  next
    case False
    then have "vy sz \<le> vx sz" by simp
    then have "vy sz / M \<le> vx sz / M" using p by (rule divide_right_mono)
    then show ?thesis using False by (simp add: max_def)
  qed
  then have i: "max (vx sz / M) (vy sz / M) = 1" using M(1) by (simp add: M_def [symmetric])
  show ?thesis
    unfolding svgGeometry_def assms(1) by (simp add: inPlaneMax_def depthOf_def n i Let_def)
qed

lemma inPlaneMax_normalizeSvg:
  "inPlaneMax (normalizeSvg g)
     = max (vx (getSize (computeBoundingBox g))
              / max (max (max (vx (getSize (computeBoundingBox g)))
                              (vy (getSize (computeBoundingBox g))))
                         (vz (getSize (computeBoundingBox g)))) 0.001)
           (vy (getSize (computeBoundingBox g))
              / max (max (max (vx (getSize (computeBoundingBox g)))
                              (vy (getSize (computeBoundingBox g))))
                         (vz (getSize (computeBoundingBox g)))) 0.001)"
  by (simp add: inPlaneMax_def normalizeSvg_size Let_def)

lemma depthOf_normalizeSvg:
  "depthOf (normalizeSvg g)
     = (if vz (getSize (computeBoundingBox g))
             / max (max (max (vx (getSize (computeBoundingBox g)))
                             (vy (getSize (computeBoundingBox g))))
                        (vz (getSize (computeBoundingBox g)))) 0.001 > 0.001
        then 1
        else vz (getSize (computeBoundingBox g))
             / max (max (max (vx (getSize (computeBoundingBox g)))
                             (vy (getSize (computeBoundingBox g))))
                        (vz (getSize (computeBoundingBox g)))) 0.001)"
  by (simp add: depthOf_def normalizeSvg_size)

lemma normalizeSvg_z_symmetric: "lo vz (normalizeSvg g) = - hi vz (normalizeSvg g)"
proof -
  define g1 where "g1 = translate (- vx (getCenter (computeBoundingBox g)))
    (- vy (getCenter (computeBoundingBox g))) (- vz (getCenter (computeBoundingBox g))) g"
  have s1: "lo vz g1 = - hi vz g1"
    unfolding g1_def
    by (simp add: lo_translate hi_translate getCenter_def computeBoundingBox_lo_hi field_simps)
  define k where "k = 1 / max (max (max (vx (getSize (computeBoundingBox g1)))
    (vy (getSize (computeBoundingBox g1)))) (vz (getSize (computeBoundingBox g1)))) 0.001"
  have k: "0 \<le> k" unfolding k_def by simp
  define g2 where "g2 = scale k k k g1"
  have s2: "lo vz g2 = - hi vz g2"
    unfolding g2_def by (simp add: lo_scale [OF k k k] hi_scale [OF k k k] s1)
  define zs where "zs = vz (bmax (computeBoundingBox g2)) - vz (bmin (computeBoundingBox g2))"
  have n: "normalizeSvg g = (if zs > 0.001 then scale 1 1 (1 / zs) g2 else g2)"
    unfolding normalizeSvg_def Let_def g1_def [symmetric] k_def [symmetric] g2_def [symmetric]
      zs_def [symmetric] by simp
  show ?thesis
  proof (cases "zs > 0.001")
    case True
    have "(0::real) < 0.001" by simp
    from this True have "0 < zs" by (rule less_trans)
    then have c: "0 \<le> 1 / zs" by simp
    have o: "(0::real) \<le> 1" by simp
    show ?thesis
      unfolding n using True by (simp add: lo_scale(3) [OF o o c] hi_scale(3) [OF o o c] s2)
  next
    case False
    then show ?thesis unfolding n by (simp add: s2)
  qed
qed

lemma normalizeSvg_z:
  "lo vz (normalizeSvg g) = - (depthOf (normalizeSvg g) / 2)"
  "hi vz (normalizeSvg g) = depthOf (normalizeSvg g) / 2"
  using normalizeSvg_z_symmetric [of g] by (simp_all add: depthOf_def getSize_lo_hi)

lemma icon_normalized_wideIcon:
  "map_option inPlaneMax (svgGeometry wideIcon) = Some 1 \<and>
   map_option depthOf (svgGeometry wideIcon) = Some 1"
proof -
  have m: "mergedGeometry wideIcon =
      Some (Geometry (Vector3 0 0 0)
        [Vector3 24 0 0, Vector3 24 12 0, Vector3 0 0 2, Vector3 24 0 2, Vector3 24 12 2,
         Vector3 4 2 0, Vector3 0 12 0, Vector3 4 2 2, Vector3 0 12 2])"
    by (simp add: mergedGeometry_def wideIcon_def SVG_EXTRUDE_DEPTH_def)
  show ?thesis
    by (rule icon_normalized_in_range [OF m])
      (simp_all add: inPlaneMax_def getSize_def expandByPoint_def SVG_EXTRUDE_DEPTH_def)
qed

text \<open>
  C2 at two icons that synthesise. The rectangle of 4000 by 3000 ends with depth 1/2000,
  not 1: after the first pass its depth is 0.0005, and the second pass rescales the depth
  only while it exceeds 0.001. The square of side 1 ends with in-plane size 1/2, not 1:
  the first pass divides by the largest of the three sizes, here the extrusion depth 2.
\<close>

theorem icon_normalization_failing_inputs:
  "map_option depthOf (svgGeometry hugeIcon) = Some (1 / 2000) \<and>
   map_option depthOf (svgGeometry hugeIcon) \<noteq> Some 1 \<and>
   map_option inPlaneMax (svgGeometry tinyIcon) = Some (1 / 2) \<and>
   map_option inPlaneMax (svgGeometry tinyIcon) \<noteq> Some 1"
proof -
  have h: "mergedGeometry hugeIcon =
      Some (Geometry (Vector3 0 0 0)
        [Vector3 4000 0 0, Vector3 4000 3000 0, Vector3 0 3000 0,
         Vector3 0 0 2, Vector3 4000 0 2, Vector3 4000 3000 2, Vector3 0 3000 2])"
    by (simp add: mergedGeometry_def hugeIcon_def SVG_EXTRUDE_DEPTH_def)
  have t: "mergedGeometry tinyIcon =
      Some (Geometry (Vector3 0 0 0)
        [Vector3 1 0 0, Vector3 1 1 0, Vector3 0 1 0,
         Vector3 0 0 2, Vector3 1 0 2, Vector3 1 1 2, Vector3 0 1 2])"
    by (simp add: mergedGeometry_def tinyIcon_def SVG_EXTRUDE_DEPTH_def)
  have "map_option depthOf (svgGeometry hugeIcon) = Some (1 / 2000)"
    unfolding svgGeometry_def h
    by (simp add: depthOf_normalizeSvg getSize_def expandByPoint_def)
  moreover have "map_option inPlaneMax (svgGeometry tinyIcon) = Some (1 / 2)"
    unfolding svgGeometry_def t
    by (simp add: inPlaneMax_normalizeSvg getSize_def expandByPoint_def)
  ultimately show ?thesis by auto
qed

section \<open>Stacking\<close>

lemma rotateX_down: "rotateX (- (pi / 2)) p = Vector3 (vx p) (vz p) (- vy p)"
  by (simp add: rotateX_def)

lemma rotateX_up: "rotateX (pi / 2) p = Vector3 (vx p) (- vz p) (vy p)"
  by (simp add: rotateX_def)

lemma lowestY_lo: "lowestY m = lo vy (worldGeometry m)"
  by (simp add: lowestY_def computeBoundingBox_lo_hi)

lemma highestY_hi: "highestY m = hi vy (worldGeometry m)"
  by (simp add: highestY_def computeBoundingBox_lo_hi)

lemma upright_extent:
  assumes "mposition m = (px, py, pz)" and "mscale m = (FILE_TO_MM, FILE_TO_MM, FILE_TO_MM)"
    and "mrotation_x m = - pi / 2"
  shows "lowestY m = py + lo vz (mgeometry m)" and "highestY m = py + hi vz (mgeometry m)"
proof -
  have w: "\<And>p. vy (localToWorld m p) = py + 1 * vz p"
    unfolding localToWorld_def assms by (simp add: rotateX_down FILE_TO_MM_def Let_def)
  show "lowestY m = py + lo vz (mgeometry m)"
    unfolding lowestY_lo worldGeometry_def
    using lo_affine_up [where k = 1 and s = vz and h = vy and c = py, OF _ w] by simp
  show "highestY m = py + hi vz (mgeometry m)"
    unfolding highestY_hi worldGeometry_def
    using hi_affine_up [where k = 1 and s = vz and h = vy and c = py, OF _ w] by simp
qed

lemma keycapMesh_extent:
  "lowestY (keycapMesh g (px, py, pz)) = py + lo vz g"
  "highestY (keycapMesh g (px, py, pz)) = py + hi vz g"
  using upright_extent [of "keycapMesh g (px, py, pz)" px py pz]
  by (simp_all add: keycapMesh_def)

lemma borderMesh_extent:
  "lowestY (borderMesh g (px, py, pz)) = py + lo vz g"
  "highestY (borderMesh g (px, py, pz)) = py + hi vz g"
  using upright_extent [of "borderMesh g (px, py, pz)" px py pz]
  by (simp_all add: borderMesh_def)

lemma bodyMesh_top: "highestY (bodyMesh g) = clickerTopY (Some g)"
proof -
  obtain px py pz where p: "meshPosition (Some g) = (px, py, pz)"
    by (cases "meshPosition (Some g)") auto
  have "highestY (bodyMesh g) = py + hi vz g"
    using upright_extent(2) [of "bodyMesh g" px py pz] p by (simp add: bodyMesh_def)
  then show ?thesis
    using p by (simp add: clickerTopY_def computeBoundingBox_lo_hi)
qed

lemma bodyMesh_bottom: "lowestY (bodyMesh g) = 0"
proof -
  have p: "meshPosition (Some g)
      = (- vx (getCenter (computeBoundingBox g)), - lo vz g, vy (getCenter (computeBoundingBox g)))"
    by (simp add: meshPosition_def Let_def computeBoundingBox_lo_hi)
  show ?thesis
    using upright_extent(1) [of "bodyMesh g" _ "- lo vz g" _] p by (simp add: bodyMesh_def)
qed

lemma labelMesh_extent:
  assumes "0 \<le> ts" and "lposition l = (px, py, pz)"
  shows "lowestY (labelMesh ts l) = py - ts * hi vz (lgeometry l)"
    and "highestY (labelMesh ts l) = py - ts * lo vz (lgeometry l)"
proof -
  have w: "\<And>p. vy (localToWorld (labelMesh ts l) p) = py + (- ts) * vz p"
    unfolding localToWorld_def
    by (simp add: labelMesh_def assms(2) rotateX_up FILE_TO_MM_def Let_def)
  have k: "- ts \<le> 0" using assms(1) by simp
  show "lowestY (labelMesh ts l) = py - ts * hi vz (lgeometry l)"
    unfolding lowestY_lo worldGeometry_def
    using lo_affine_down [where s = vz and h = vy and c = py, OF k w]
    by (simp add: labelMesh_def)
  show "highestY (labelMesh ts l) = py - ts * lo vz (lgeometry l)"
    unfolding highestY_hi worldGeometry_def
    using hi_affine_down [where s = vz and h = vy and c = py, OF k w]
    by (simp add: labelMesh_def)
qed

lemma centered_z:
  "lo vz (centered g) = - (depthOf g / 2)" "hi vz (centered g) = depthOf g / 2"
  by (simp_all add: centered_def Let_def lo_translate hi_translate getCenter_def depthOf_def
      getSize_def computeBoundingBox_lo_hi field_simps)

lemma depthOf_centered: "depthOf (centered g) = depthOf g"
  by (simp add: centered_def Let_def depthOf_def getSize_translate)

lemma keycapOffset_z:
  "minZ (keycapOffset (Some g)) = lo vz g" "maxZ (keycapOffset (Some g)) = hi vz g"
  by (simp_all add: keycapOffset_def Let_def computeBoundingBox_lo_hi)

lemma borderOffset_z: "bminZ (borderOffset (Some g)) = lo vz g"
  by (simp add: borderOffset_def Let_def computeBoundingBox_lo_hi)

lemma keycapMeshPositions_nth:
  assumes "i < length positions" and "positions ! i = (x, y, z)"
  shows "keycapMeshPositions offset topY positions ! i
     = (x - fst (center offset), topY + y - minZ offset, z + fst (snd (center offset)))"
  using assms by (simp add: keycapMeshPositions_def)

lemma borderMeshPositions_nth:
  assumes "i < length positions" and "positions ! i = (x, y, z)"
  shows "borderMeshPositions offset border topY positions ! i
     = (x - fst (bcenter border),
        topY + y - minZ offset + keycapHeight offset - bminZ border,
        z + fst (snd (bcenter border)))"
  using assms by (auto simp add: borderMeshPositions_def Let_def)

lemma keycapLabelAt_Some:
  assumes "keycapLabelAt f ts letters urls positions offset topY i = Some l"
    and "positions ! i = (x, y, z)"
  shows "lposition l = (x, topY + y - minZ offset + (maxZ offset - minZ offset), z)"
    and "lgeometry l = centered (f (take 1 (toUpperCase (letters ! i))) (LEGEND_DEPTH_MM / ts))"
    and "i < length positions"
  using assms unfolding keycapLabelAt_def elemAt_def legendPosition_def
  by (auto simp add: Let_def split: if_splits option.splits)

lemma flipped_extent:
  assumes "mposition m = (px, py, pz)" and "mscale m = (sx, sy, sz)" and "0 \<le> sz"
    and "mrotation_x m = pi / 2"
  shows "lowestY m = py - sz * hi vz (mgeometry m)"
    and "highestY m = py - sz * lo vz (mgeometry m)"
proof -
  have w: "\<And>p. vy (localToWorld m p) = py + (- sz) * vz p"
    unfolding localToWorld_def assms by (simp add: rotateX_up Let_def)
  have k: "- sz \<le> 0" using assms(3) by simp
  show "lowestY m = py - sz * hi vz (mgeometry m)"
    unfolding lowestY_lo worldGeometry_def
    using lo_affine_down [where s = vz and h = vy and c = py, OF k w] by simp
  show "highestY m = py - sz * lo vz (mgeometry m)"
    unfolding highestY_hi worldGeometry_def
    using hi_affine_down [where s = vz and h = vy and c = py, OF k w] by simp
qed

lemma svgSlotMesh_Some:
  assumes "svgSlotMesh cache svgSize slot = Some m"
  shows "\<exists>g. cache (snd slot) = Some g \<and> mgeometry m = g \<and> mposition m = fst slot \<and>
     mscale m = (svgSize * FILE_TO_MM, svgSize * FILE_TO_MM, LEGEND_DEPTH_MM * FILE_TO_MM) \<and>
     mrotation_x m = pi / 2"
  using assms unfolding svgSlotMesh_def by (auto split: option.splits)

lemma keycapSvgSlotAt_Some:
  assumes "keycapSvgSlotAt urls positions offset topY i = Some slot"
    and "positions ! i = (x, y, z)"
  shows "fst slot = (x, topY + y - minZ offset + (maxZ offset - minZ offset), z)"
  using assms unfolding keycapSvgSlotAt_def elemAt_def legendPosition_def
  by (auto simp add: Let_def split: if_splits option.splits)

text \<open>
  C1, as the code has it. Take any key \<open>i\<close> of the placement, with entry \<open>(x, y, z)\<close>, the
  keycap mesh and the body mesh. The bottom of the keycap is the top of the body plus the
  offset \<open>y\<close>, hence above the body top less \<open>eps\<close> whenever \<open>- eps < y\<close>; the top of the
  keycap is its bottom plus the keycap's height, strictly above it for a keycap of positive
  height. For a keycap mesh whose local box starts at \<open>z = 0\<close>: the lowest point of the
  border is at the top of the keycap; where the key has a text label (shown at a positive
  text size) or an icon whose normalised geometry is in the cache, the origin of the
  legend (the centre of its recentred geometry) is at the top of the keycap, and the
  legend reaches from half its depth below the top of the keycap to half its depth above
  it.
\<close>

theorem stacking_invariant:
  assumes "i < length positions" and "positions ! i = (x, y, z)"
    and "offset = keycapOffset (Some kg)" and "topY = clickerTopY (Some body)"
  shows
    "lowestY (keycapMesh kg (keycapMeshPositions offset topY positions ! i))
       = highestY (bodyMesh body) + y \<and>
     (- eps < y \<longrightarrow>
        highestY (bodyMesh body) - eps
          < lowestY (keycapMesh kg (keycapMeshPositions offset topY positions ! i))) \<and>
     highestY (keycapMesh kg (keycapMeshPositions offset topY positions ! i))
       = lowestY (keycapMesh kg (keycapMeshPositions offset topY positions ! i))
         + keycapHeight offset \<and>
     (0 < keycapHeight offset \<longrightarrow>
        lowestY (keycapMesh kg (keycapMeshPositions offset topY positions ! i))
          < highestY (keycapMesh kg (keycapMeshPositions offset topY positions ! i))) \<and>
     (minZ offset = 0 \<longrightarrow>
        lowestY (borderMesh bg
           (borderMeshPositions offset (borderOffset (Some bg)) topY positions ! i))
          = highestY (keycapMesh kg (keycapMeshPositions offset topY positions ! i))) \<and>
     (minZ offset = 0 \<and> 0 < ts \<and>
      keycapLabelAt f ts letters urls positions offset topY i = Some l \<longrightarrow>
        fst (snd (lposition l))
          = highestY (keycapMesh kg (keycapMeshPositions offset topY positions ! i)) \<and>
        lowestY (labelMesh ts l)
          = highestY (keycapMesh kg (keycapMeshPositions offset topY positions ! i))
            - ts * depthOf (lgeometry l) / 2 \<and>
        highestY (labelMesh ts l)
          = highestY (keycapMesh kg (keycapMeshPositions offset topY positions ! i))
            + ts * depthOf (lgeometry l) / 2) \<and>
     (minZ offset = 0 \<and>
      keycapSvgSlotAt urls positions offset topY i = Some slot \<and>
      cache (snd slot) = Some (normalizeSvg merged) \<and>
      svgSlotMesh cache svgSize slot = Some m \<longrightarrow>
        fst (snd (mposition m))
          = highestY (keycapMesh kg (keycapMeshPositions offset topY positions ! i)) \<and>
        lowestY m
          = highestY (keycapMesh kg (keycapMeshPositions offset topY positions ! i))
            - LEGEND_DEPTH_MM * depthOf (normalizeSvg merged) / 2 \<and>
        highestY m
          = highestY (keycapMesh kg (keycapMeshPositions offset topY positions ! i))
            + LEGEND_DEPTH_MM * depthOf (normalizeSvg merged) / 2)"
proof -
  define K where "K = keycapMesh kg (keycapMeshPositions offset topY positions ! i)"
  have z: "maxZ offset = hi vz kg" "minZ offset = lo vz kg"
    using assms(3) keycapOffset_z [of kg] by simp_all
  have kl: "lowestY K = topY + y"
    unfolding K_def keycapMeshPositions_nth [OF assms(1,2)] keycapMesh_extent z by simp
  have kh: "highestY K = topY + y - lo vz kg + hi vz kg"
    unfolding K_def keycapMeshPositions_nth [OF assms(1,2)] keycapMesh_extent z by simp
  have h: "keycapHeight offset = hi vz kg - lo vz kg"
    by (simp add: keycapHeight_def z)
  have t: "highestY (bodyMesh body) = topY"
    by (simp add: bodyMesh_top assms(4))
  have b: "lowestY (borderMesh bg
        (borderMeshPositions offset (borderOffset (Some bg)) topY positions ! i))
      = highestY K - minZ offset"
    unfolding borderMeshPositions_nth [OF assms(1,2)] borderMesh_extent borderOffset_z kh h z
    by simp
  have lab: "fst (snd (lposition l)) = highestY K \<and>
      lowestY (labelMesh ts l) = highestY K - ts * depthOf (lgeometry l) / 2 \<and>
      highestY (labelMesh ts l) = highestY K + ts * depthOf (lgeometry l) / 2"
    if m0: "minZ offset = 0" and ts: "0 < ts"
      and la: "keycapLabelAt f ts letters urls positions offset topY i = Some l"
  proof -
    have lp: "lposition l = (x, highestY K, z)"
      using keycapLabelAt_Some(1) [OF la assms(2)] m0 by (simp add: kh z)
    have lg: "hi vz (lgeometry l) = depthOf (lgeometry l) / 2"
      "lo vz (lgeometry l) = - (depthOf (lgeometry l) / 2)"
      unfolding keycapLabelAt_Some(2) [OF la assms(2)]
      by (simp_all add: centered_z depthOf_centered)
    have ts': "0 \<le> ts" using ts by simp
    show ?thesis
      unfolding labelMesh_extent [OF ts' lp] lg using lp by simp
  qed
  have ico: "fst (snd (mposition m)) = highestY K \<and>
      lowestY m = highestY K - LEGEND_DEPTH_MM * depthOf (normalizeSvg merged) / 2 \<and>
      highestY m = highestY K + LEGEND_DEPTH_MM * depthOf (normalizeSvg merged) / 2"
    if m0: "minZ offset = 0"
      and sl: "keycapSvgSlotAt urls positions offset topY i = Some slot"
      and ca: "cache (snd slot) = Some (normalizeSvg merged)"
      and me: "svgSlotMesh cache svgSize slot = Some m"
  proof -
    from svgSlotMesh_Some [OF me] ca
    have g: "mgeometry m = normalizeSvg merged" and p: "mposition m = fst slot"
      and s: "mscale m
        = (svgSize * FILE_TO_MM, svgSize * FILE_TO_MM, LEGEND_DEPTH_MM * FILE_TO_MM)"
      and r: "mrotation_x m = pi / 2"
      by auto
    have mp: "mposition m = (x, highestY K, z)"
      unfolding p using keycapSvgSlotAt_Some [OF sl assms(2)] m0 by (simp add: kh z)
    have d: "0 \<le> LEGEND_DEPTH_MM * FILE_TO_MM"
      by (simp add: LEGEND_DEPTH_MM_def FILE_TO_MM_def)
    show ?thesis
      unfolding flipped_extent [OF mp s d r] g normalizeSvg_z using mp
      by (simp add: FILE_TO_MM_def)
  qed
  show ?thesis
    unfolding K_def [symmetric] using kl kh h t b lab ico by auto
qed


lemma sample_placement:
  "keycapPositions None 1 = [(4.5, 0, 0)]"
  "clickerTopY (Some bodyBlock) = 10"
  "keycapOffset (Some keycapCube) = \<lparr>center = (0, 0, 4), minZ = 0, maxZ = 8\<rparr>"
  "borderOffset (Some borderRing) = \<lparr>bcenter = (0, 0, 0.5), bminZ = 0\<rparr>"
  by (simp_all add: keycapPositions_def elemAt_def elemAtNumber_def keyIndex_def KEYCAP_POSITIONS_def
      clickerTopY_def meshPosition_def bodyBlock_def keycapOffset_def keycapCube_def
      borderOffset_def borderRing_def expandByPoint_def getCenter_def Let_def)

lemma sample_label:
  "keycapLabelAt sampleFont 8.7 [''a''] [None] (keycapPositions None 1)
     (keycapOffset (Some keycapCube)) (clickerTopY (Some bodyBlock)) 0 = Some sampleLabel"
  unfolding sample_placement
  by (simp add: keycapLabelAt_def elemAt_def truthy_def trim_def isSpace_def toUpperCase_def
      upperChar_def legendPosition_def sampleLabel_def)

lemma sample_depth: "depthOf (lgeometry sampleLabel) = LEGEND_DEPTH_MM / 8.7"
proof -
  have "depthOf (lgeometry sampleLabel) = depthOf (sampleFont ''A'' (LEGEND_DEPTH_MM / 8.7))"
    by (simp add: sampleLabel_def depthOf_centered)
  also have "\<dots> = LEGEND_DEPTH_MM / 8.7"
    by (simp add: depthOf_def getSize_def sampleFont_def expandByPoint_def LEGEND_DEPTH_MM_def)
  finally show ?thesis .
qed

lemma sample_icon:
  "keycapSvgSlotAt [Some ''heart.svg''] (keycapPositions None 1)
     (keycapOffset (Some keycapCube)) (clickerTopY (Some bodyBlock)) 0
     = Some ((4.5, 18, 0), ''heart.svg'')"
  "heartCache ''heart.svg'' = Some (normalizeSvg wideMerged)"
  "svgSlotMesh heartCache 8 ((4.5, 18, 0), ''heart.svg'') = Some heartMesh"
proof -
  show "keycapSvgSlotAt [Some ''heart.svg''] (keycapPositions None 1)
     (keycapOffset (Some keycapCube)) (clickerTopY (Some bodyBlock)) 0
     = Some ((4.5, 18, 0), ''heart.svg'')"
    unfolding sample_placement
    by (simp add: keycapSvgSlotAt_def elemAt_def trim_def isSpace_def legendPosition_def)
  have m: "mergedGeometry wideIcon = Some wideMerged"
    by (simp add: mergedGeometry_def wideIcon_def wideMerged_def SVG_EXTRUDE_DEPTH_def)
  show c: "heartCache ''heart.svg'' = Some (normalizeSvg wideMerged)"
    by (simp add: heartCache_def svgGeometry_def m)
  show "svgSlotMesh heartCache 8 ((4.5, 18, 0), ''heart.svg'') = Some heartMesh"
    by (simp add: svgSlotMesh_def c heartMesh_def)
qed

lemma sample_icon_depth: "depthOf (normalizeSvg wideMerged) = 1"
  by (simp add: depthOf_normalizeSvg getSize_def expandByPoint_def wideMerged_def)

theorem stacking_invariant_witness:
  "lowestY (keycapMesh keycapCube
      (keycapMeshPositions (keycapOffset (Some keycapCube)) (clickerTopY (Some bodyBlock))
         (keycapPositions None 1) ! 0))
     = highestY (bodyMesh bodyBlock) + 0 \<and>
   highestY (keycapMesh keycapCube
      (keycapMeshPositions (keycapOffset (Some keycapCube)) (clickerTopY (Some bodyBlock))
         (keycapPositions None 1) ! 0))
     = lowestY (keycapMesh keycapCube
         (keycapMeshPositions (keycapOffset (Some keycapCube)) (clickerTopY (Some bodyBlock))
            (keycapPositions None 1) ! 0)) + 8 \<and>
   lowestY (borderMesh borderRing
      (borderMeshPositions (keycapOffset (Some keycapCube)) (borderOffset (Some borderRing))
         (clickerTopY (Some bodyBlock)) (keycapPositions None 1) ! 0))
     = highestY (keycapMesh keycapCube
         (keycapMeshPositions (keycapOffset (Some keycapCube)) (clickerTopY (Some bodyBlock))
            (keycapPositions None 1) ! 0)) \<and>
   fst (snd (lposition sampleLabel))
     = highestY (keycapMesh keycapCube
         (keycapMeshPositions (keycapOffset (Some keycapCube)) (clickerTopY (Some bodyBlock))
            (keycapPositions None 1) ! 0)) \<and>
   lowestY (labelMesh 8.7 sampleLabel)
     = highestY (keycapMesh keycapCube
         (keycapMeshPositions (keycapOffset (Some keycapCube)) (clickerTopY (Some bodyBlock))
            (keycapPositions None 1) ! 0)) - 0.6 \<and>
   fst (snd (mposition heartMesh))
     = highestY (keycapMesh keycapCube
         (keycapMeshPositions (keycapOffset (Some keycapCube)) (clickerTopY (Some bodyBlock))
            (keycapPositions None 1) ! 0)) \<and>
   lowestY heartMesh
     = highestY (keycapMesh keycapCube
         (keycapMeshPositions (keycapOffset (Some keycapCube)) (clickerTopY (Some bodyBlock))
            (keycapPositions None 1) ! 0)) - 0.6 \<and>
   highestY heartMesh
     = highestY (keycapMesh keycapCube
         (keycapMeshPositions (keycapOffset (Some keycapCube)) (clickerTopY (Some bodyBlock))
            (keycapPositions None 1) ! 0)) + 0.6"
proof -
  have a: "0 < length (keycapPositions None 1)" "keycapPositions None 1 ! 0 = (4.5, 0, 0)"
    by (simp_all add: sample_placement)
  have z: "minZ (keycapOffset (Some keycapCube)) = 0"
    "keycapHeight (keycapOffset (Some keycapCube)) = 8"
    by (simp_all add: sample_placement keycapHeight_def)
  have p: "(0::real) < 8.7" by simp
  note lab = stacking_invariant [OF a refl refl, where kg = keycapCube and body = bodyBlock
      and bg = borderRing and ts = "8.7" and f = sampleFont and letters = "[''a'']"
      and urls = "[None]" and l = sampleLabel and eps = 1]
  note ico = stacking_invariant [OF a refl refl, where kg = keycapCube and body = bodyBlock
      and urls = "[Some ''heart.svg'']" and slot = "((4.5, 18, 0), ''heart.svg'')"
      and cache = heartCache and merged = wideMerged and svgSize = 8 and m = heartMesh]
  show ?thesis
    using lab ico z p sample_label sample_icon
    by (simp add: sample_depth sample_icon_depth LEGEND_DEPTH_MM_def)
qed

lemma raised_placement:
  "keycapOffset (Some raisedCube) = \<lparr>center = (0, 0, 5), minZ = 1, maxZ = 9\<rparr>"
  by (simp add: keycapOffset_def raisedCube_def expandByPoint_def getCenter_def Let_def)

text \<open>
  The claim as stated fails. On the sample body and keycap the top of the keycap is at
  18 and the lowest point of the label of the letter a is at 17.4: the label is centred on
  the plane, not standing on it. For the keycap mesh whose local box starts at \<open>z = 1\<close> the
  top of the keycap is at 18 and the lowest point of the border at 17.
\<close>

theorem stacking_invariant_counterexample:
  "keycapLabelAt sampleFont 8.7 [''a''] [None] (keycapPositions None 1)
     (keycapOffset (Some keycapCube)) (clickerTopY (Some bodyBlock)) 0 = Some sampleLabel \<and>
   highestY (keycapMesh keycapCube
      (keycapMeshPositions (keycapOffset (Some keycapCube)) (clickerTopY (Some bodyBlock))
         (keycapPositions None 1) ! 0)) = 18 \<and>
   lowestY (labelMesh 8.7 sampleLabel) = 17.4 \<and>
   lowestY (labelMesh 8.7 sampleLabel)
     \<noteq> highestY (keycapMesh keycapCube
         (keycapMeshPositions (keycapOffset (Some keycapCube)) (clickerTopY (Some bodyBlock))
            (keycapPositions None 1) ! 0)) \<and>
   highestY (keycapMesh raisedCube
      (keycapMeshPositions (keycapOffset (Some raisedCube)) (clickerTopY (Some bodyBlock))
         (keycapPositions None 1) ! 0)) = 18 \<and>
   lowestY (borderMesh borderRing
      (borderMeshPositions (keycapOffset (Some raisedCube)) (borderOffset (Some borderRing))
         (clickerTopY (Some bodyBlock)) (keycapPositions None 1) ! 0)) = 17"
proof -
  have r: "highestY (keycapMesh raisedCube
      (keycapMeshPositions (keycapOffset (Some raisedCube)) (clickerTopY (Some bodyBlock))
         (keycapPositions None 1) ! 0)) = 18"
    unfolding sample_placement raised_placement
    by (simp add: keycapMeshPositions_def keycapMesh_extent raisedCube_def)
  have b: "lowestY (borderMesh borderRing
      (borderMeshPositions (keycapOffset (Some raisedCube)) (borderOffset (Some borderRing))
         (clickerTopY (Some bodyBlock)) (keycapPositions None 1) ! 0)) = 17"
    unfolding sample_placement raised_placement
    by (simp add: borderMeshPositions_def keycapHeight_def borderMesh_extent borderRing_def
        Let_def)
  have k: "highestY (keycapMesh keycapCube
      (keycapMeshPositions (keycapOffset (Some keycapCube)) (clickerTopY (Some bodyBlock))
         (keycapPositions None 1) ! 0)) = 18"
    unfolding sample_placement
    by (simp add: keycapMeshPositions_def keycapMesh_extent keycapCube_def)
  have p: "lposition sampleLabel = (4.5, 18, 0)" by (simp add: sampleLabel_def)
  have "hi vz (lgeometry sampleLabel) = LEGEND_DEPTH_MM / 8.7 / 2"
    using centered_z(2) [of "sampleFont ''A'' (LEGEND_DEPTH_MM / 8.7)"] sample_depth
    by (simp add: sampleLabel_def depthOf_centered)
  then have l: "lowestY (labelMesh 8.7 sampleLabel) = 17.4"
    using labelMesh_extent(1) [OF _ p, of "8.7"] by (simp add: LEGEND_DEPTH_MM_def)
  show ?thesis using sample_label k l r b by simp
qed

end
